theory Spec2Isabelle
  imports Main
begin

section \<open>Data model (shared/schema.ts)\<close>

text \<open>
  The four tables of the schema. Keys are \<open>serial\<close> columns, modelled as natural
  numbers; a nullable column is an \<open>option\<close>. An instant is the number of milliseconds
  since the epoch, as a JavaScript \<open>Date\<close> holds it; a \<open>timestamp\<close> column holds an
  instant. The columns \<open>created_at\<close> and \<open>updated_at\<close> are left out: no operation
  below reads them. Numbers are integers here (\<open>intervalDays\<close>, \<open>cost\<close>).
  Field names carry a prefix for the table (\<open>d_\<close>, \<open>c_\<close>, \<open>t_\<close>) because several
  tables share column names.
\<close>

type_synonym instant = int

record user =
  u_id :: nat
  u_username :: string

record device =
  d_id :: nat
  d_name :: string
  d_model :: "string option"
  d_location :: "string option"
  d_userId :: nat
  d_imageUrl :: "string option"
  d_manualUrl :: "string option"
  d_consumablesUrl :: "string option"
  d_purchaseDate :: "instant option"
  d_warrantyExpirationDate :: "instant option"
  d_receiptUrl :: "string option"

record consumable =
  c_id :: nat
  c_deviceId :: nat
  c_name :: string
  c_description :: "string option"
  c_storage_location :: "string option"
  c_url :: "string option"
  c_cost :: "int option"

record task =
  t_id :: nat
  t_deviceId :: nat
  t_name :: string
  t_description :: "string option"
  t_intervalDays :: int
  t_lastCompleted :: "instant option"
  t_isCompleted :: "bool option"
  t_completedBy :: "nat option"
  t_completedByUsername :: "string option"

text \<open>
  The value of a date field while it travels through the JavaScript code. A request
  body is JSON, so there it is a string, as the forms send it: \<open>Str x p\<close> is the string
  \<open>x\<close> together with what \<open>new Date(x)\<close> makes of it, the instant \<open>p\<close>, or \<open>None\<close> for
  an Invalid Date (parsing belongs to the runtime). \<open>Date p\<close> is a \<open>Date\<close> object, valid
  with the instant \<open>p\<close> or invalid; the storage layer builds one, a request never carries one.
\<close>

datatype datevalue =
    Str string "instant option"
  | Date "instant option"

text \<open>
  A request body, and the argument of the storage layer's create and update functions
  (\<open>Partial<Device>\<close>, \<open>Partial<Consumable>\<close>, \<open>Partial<MaintenanceTask>\<close>): every
  column may be absent (\<open>None\<close>) or present (\<open>Some v\<close>); for a nullable column the
  value present may be \<open>null\<close> (\<open>Some None\<close>). Apart from the date fields, values have
  the types the schema declares. The primary key and the two columns left out are not
  part of a body: no form sends them, and a request that carries them is outside this
  model.
\<close>

record device_body =
  pd_name :: "string option"
  pd_model :: "string option option"
  pd_location :: "string option option"
  pd_userId :: "nat option"
  pd_imageUrl :: "string option option"
  pd_manualUrl :: "string option option"
  pd_consumablesUrl :: "string option option"
  pd_purchaseDate :: "datevalue option option"
  pd_warrantyExpirationDate :: "datevalue option option"
  pd_receiptUrl :: "string option option"

record consumable_body =
  pc_deviceId :: "nat option"
  pc_name :: "string option"
  pc_description :: "string option option"
  pc_storage_location :: "string option option"
  pc_url :: "string option option"
  pc_cost :: "int option option"

record task_body =
  pt_deviceId :: "nat option"
  pt_name :: "string option"
  pt_description :: "string option option"
  pt_intervalDays :: "int option"
  pt_lastCompleted :: "datevalue option option"
  pt_isCompleted :: "bool option option"
  pt_completedBy :: "nat option option"
  pt_completedByUsername :: "string option option"

text \<open>
  The store: the rows of each table in insertion order, and the next value of each
  \<open>serial\<close> key. A key value is handed out once and never again.
\<close>

record db =
  users :: "user list"
  devices :: "device list"
  consumables :: "consumable list"
  maintenanceTasks :: "task list"
  devices_seq :: nat
  consumables_seq :: nat
  maintenanceTasks_seq :: nat

text \<open>
  What a storage call can throw. \<open>TypeError\<close> and \<open>RangeError\<close> are thrown by the
  query builder while it turns the value of a \<open>timestamp\<close> column into a parameter
  (\<open>value.toISOString()\<close>), and \<open>NoValuesToSet\<close> when an update sets no column, all
  before anything reaches the store. The others are the store's: a value outside the
  range of its column, a text with a zero character, an exhausted key sequence, a
  missing value for a \<open>notNull\<close> column, a \<open>completedBy\<close> that is no user's key, and
  \<open>PersistenceError\<close> for a statement the store refuses for a reason of its own (it is
  unavailable, a write fails).
\<close>

datatype error =
    TypeError
  | RangeError
  | NoValuesToSet
  | OutOfRange string
  | InvalidText string
  | SequenceLimit string
  | NotNullViolation string
  | ForeignKeyViolation string
  | PersistenceError

section \<open>Statements of the query builder\<close>

text \<open>\<open>const [x] = rows\<close>: the first row, or \<open>undefined\<close>.\<close>

definition first :: "'a list \<Rightarrow> 'a option" where
  "first rows = (case rows of [] \<Rightarrow> None | x # _ \<Rightarrow> Some x)"

text \<open>\<open>.set(v)\<close> on one column: a value that is present is written, an absent one
  leaves the column as it is.\<close>

definition assign :: "'a option \<Rightarrow> 'a \<Rightarrow> 'a" where
  "assign v old = (case v of None \<Rightarrow> old | Some x \<Rightarrow> x)"

text \<open>\<open>.values(v)\<close> on one nullable column without a default: absent means NULL.\<close>

definition orNull :: "'a option option \<Rightarrow> 'a option" where
  "orNull v = (case v of None \<Rightarrow> None | Some x \<Rightarrow> x)"

subsection \<open>Parameters\<close>

text \<open>
  The value of a \<open>timestamp\<close> column becomes a parameter through \<open>toISOString\<close>: a
  string has no such method (\<open>TypeError\<close>), an Invalid Date makes it throw
  (\<open>RangeError\<close>); \<open>null\<close> and an absent value pass. \<open>timestamp\<close> is the instant written
  for a value that has passed.
\<close>

definition toISOString :: "datevalue option option \<Rightarrow> error option" where
  "toISOString v =
     (case v of
        Some (Some (Str x p)) \<Rightarrow> Some TypeError
      | Some (Some (Date None)) \<Rightarrow> Some RangeError
      | _ \<Rightarrow> None)"

definition timestamp :: "datevalue option \<Rightarrow> instant option" where
  "timestamp v = (case v of Some (Date p) \<Rightarrow> p | _ \<Rightarrow> None)"

text \<open>
  What the store accepts as a parameter: for an \<open>integer\<close> column a 32-bit number,
  for a \<open>text\<close> column a string without the zero character, for a \<open>timestamp\<close> column
  an instant whose ISO form has a year from 0001 to 9999.
\<close>

definition int4 :: "int \<Rightarrow> bool" where
  "int4 n = (- 2147483648 \<le> n \<and> n \<le> 2147483647)"

definition text_ok :: "string \<Rightarrow> bool" where
  "text_ok x = (CHR 0x00 \<notin> set x)"

definition timestamp_ok :: "instant \<Rightarrow> bool" where
  "timestamp_ok t = (- 62135596800000 \<le> t \<and> t \<le> 253402300799999)"

definition check_int :: "string \<Rightarrow> int option \<Rightarrow> error option" where
  "check_int column v =
     (case v of None \<Rightarrow> None | Some n \<Rightarrow> if int4 n then None else Some (OutOfRange column))"

definition check_text :: "string \<Rightarrow> string option \<Rightarrow> error option" where
  "check_text column v =
     (case v of None \<Rightarrow> None | Some x \<Rightarrow> if text_ok x then None else Some (InvalidText column))"

definition check_timestamp :: "string \<Rightarrow> instant option \<Rightarrow> error option" where
  "check_timestamp column v =
     (case v of
        None \<Rightarrow> None
      | Some t \<Rightarrow> if timestamp_ok t then None else Some (OutOfRange column))"

text \<open>The first of the errors, in the order in which the checks are made.\<close>

fun first_error :: "error option list \<Rightarrow> error option" where
  "first_error [] = None"
| "first_error (None # es) = first_error es"
| "first_error (Some e # es) = Some e"

text \<open>The parameters of a statement on each table: first the query builder's own
  errors, then the store's checks, column by column.\<close>

definition device_params :: "device_body \<Rightarrow> error option" where
  "device_params v =
     first_error
       [toISOString (pd_purchaseDate v),
        toISOString (pd_warrantyExpirationDate v),
        check_text ''name'' (pd_name v),
        check_text ''model'' (orNull (pd_model v)),
        check_text ''location'' (orNull (pd_location v)),
        check_int ''user_id'' (map_option int (pd_userId v)),
        check_text ''image_url'' (orNull (pd_imageUrl v)),
        check_text ''manual_url'' (orNull (pd_manualUrl v)),
        check_text ''consumables_url'' (orNull (pd_consumablesUrl v)),
        check_timestamp ''purchase_date'' (timestamp (orNull (pd_purchaseDate v))),
        check_timestamp ''warranty_expiration_date''
          (timestamp (orNull (pd_warrantyExpirationDate v))),
        check_text ''receipt_url'' (orNull (pd_receiptUrl v))]"

definition consumable_params :: "consumable_body \<Rightarrow> error option" where
  "consumable_params v =
     first_error
       [check_int ''device_id'' (map_option int (pc_deviceId v)),
        check_text ''name'' (pc_name v),
        check_text ''description'' (orNull (pc_description v)),
        check_text ''storage_location'' (orNull (pc_storage_location v)),
        check_text ''url'' (orNull (pc_url v))]"

definition task_params :: "task_body \<Rightarrow> error option" where
  "task_params v =
     first_error
       [toISOString (pt_lastCompleted v),
        check_int ''device_id'' (map_option int (pt_deviceId v)),
        check_text ''name'' (pt_name v),
        check_text ''description'' (orNull (pt_description v)),
        check_int ''interval_days'' (pt_intervalDays v),
        check_timestamp ''last_completed'' (timestamp (orNull (pt_lastCompleted v))),
        check_int ''completed_by'' (map_option int (orNull (pt_completedBy v))),
        check_text ''completed_by_username'' (orNull (pt_completedByUsername v))]"

text \<open>An update that sets no column is refused by the query builder.\<close>

definition device_body_empty :: "device_body \<Rightarrow> bool" where
  "device_body_empty v =
     (pd_name v = None \<and> pd_model v = None \<and> pd_location v = None \<and> pd_userId v = None
      \<and> pd_imageUrl v = None \<and> pd_manualUrl v = None \<and> pd_consumablesUrl v = None
      \<and> pd_purchaseDate v = None \<and> pd_warrantyExpirationDate v = None
      \<and> pd_receiptUrl v = None)"

definition consumable_body_empty :: "consumable_body \<Rightarrow> bool" where
  "consumable_body_empty v =
     (pc_deviceId v = None \<and> pc_name v = None \<and> pc_description v = None
      \<and> pc_storage_location v = None \<and> pc_url v = None \<and> pc_cost v = None)"

definition task_body_empty :: "task_body \<Rightarrow> bool" where
  "task_body_empty v =
     (pt_deviceId v = None \<and> pt_name v = None \<and> pt_description v = None
      \<and> pt_intervalDays v = None \<and> pt_lastCompleted v = None \<and> pt_isCompleted v = None
      \<and> pt_completedBy v = None \<and> pt_completedByUsername v = None)"

subsection \<open>Rows\<close>

definition set_device :: "device_body \<Rightarrow> device \<Rightarrow> device" where
  "set_device v d =
     d\<lparr> d_name := assign (pd_name v) (d_name d),
        d_model := assign (pd_model v) (d_model d),
        d_location := assign (pd_location v) (d_location d),
        d_userId := assign (pd_userId v) (d_userId d),
        d_imageUrl := assign (pd_imageUrl v) (d_imageUrl d),
        d_manualUrl := assign (pd_manualUrl v) (d_manualUrl d),
        d_consumablesUrl := assign (pd_consumablesUrl v) (d_consumablesUrl d),
        d_purchaseDate := assign (map_option timestamp (pd_purchaseDate v)) (d_purchaseDate d),
        d_warrantyExpirationDate :=
          assign (map_option timestamp (pd_warrantyExpirationDate v))
            (d_warrantyExpirationDate d),
        d_receiptUrl := assign (pd_receiptUrl v) (d_receiptUrl d) \<rparr>"

definition set_consumable :: "consumable_body \<Rightarrow> consumable \<Rightarrow> consumable" where
  "set_consumable v c =
     c\<lparr> c_deviceId := assign (pc_deviceId v) (c_deviceId c),
        c_name := assign (pc_name v) (c_name c),
        c_description := assign (pc_description v) (c_description c),
        c_storage_location := assign (pc_storage_location v) (c_storage_location c),
        c_url := assign (pc_url v) (c_url c),
        c_cost := assign (pc_cost v) (c_cost c) \<rparr>"

definition set_task :: "task_body \<Rightarrow> task \<Rightarrow> task" where
  "set_task v t =
     t\<lparr> t_deviceId := assign (pt_deviceId v) (t_deviceId t),
        t_name := assign (pt_name v) (t_name t),
        t_description := assign (pt_description v) (t_description t),
        t_intervalDays := assign (pt_intervalDays v) (t_intervalDays t),
        t_lastCompleted := assign (map_option timestamp (pt_lastCompleted v)) (t_lastCompleted t),
        t_isCompleted := assign (pt_isCompleted v) (t_isCompleted t),
        t_completedBy := assign (pt_completedBy v) (t_completedBy t),
        t_completedByUsername :=
          assign (pt_completedByUsername v) (t_completedByUsername t) \<rparr>"

text \<open>\<open>completedBy: integer("completed_by").references(() => users.id)\<close>: a value
  written to the column must be NULL or the key of a user.\<close>

definition completedBy_fk :: "db \<Rightarrow> nat option option \<Rightarrow> bool" where
  "completedBy_fk s v =
     (case v of
        Some (Some uid) \<Rightarrow> list_ex (\<lambda>u. u_id u = uid) (users s)
      | _ \<Rightarrow> True)"

subsection \<open>Insert\<close>

text \<open>
  \<open>db.insert(t).values(v).returning()\<close>. A statement whose parameters are refused does
  nothing. Otherwise the key is drawn from the sequence, which keeps the value drawn
  also when the row is then refused: \<open>name\<close> and \<open>user_id\<close> are \<open>notNull\<close> without a
  default.
\<close>

definition insert_devices :: "device_body \<Rightarrow> db \<Rightarrow> db \<times> (error + device list)" where
  "insert_devices v s =
     (case device_params v of
        Some e \<Rightarrow> (s, Inl e)
      | None \<Rightarrow>
          if 2147483647 < devices_seq s then (s, Inl (SequenceLimit ''devices_id_seq''))
          else
            let drawn = s\<lparr> devices_seq := Suc (devices_seq s) \<rparr>
            in (case pd_name v of
                  None \<Rightarrow> (drawn, Inl (NotNullViolation ''name''))
                | Some n \<Rightarrow>
               (case pd_userId v of
                  None \<Rightarrow> (drawn, Inl (NotNullViolation ''user_id''))
                | Some uid \<Rightarrow>
                    let row = \<lparr> d_id = devices_seq s, d_name = n,
                                d_model = orNull (pd_model v),
                                d_location = orNull (pd_location v),
                                d_userId = uid,
                                d_imageUrl = orNull (pd_imageUrl v),
                                d_manualUrl = orNull (pd_manualUrl v),
                                d_consumablesUrl = orNull (pd_consumablesUrl v),
                                d_purchaseDate = timestamp (orNull (pd_purchaseDate v)),
                                d_warrantyExpirationDate =
                                  timestamp (orNull (pd_warrantyExpirationDate v)),
                                d_receiptUrl = orNull (pd_receiptUrl v) \<rparr>
                    in (drawn\<lparr> devices := devices s @ [row] \<rparr>, Inr [row]))))"

definition insert_consumables ::
  "consumable_body \<Rightarrow> db \<Rightarrow> db \<times> (error + consumable list)" where
  "insert_consumables v s =
     (case consumable_params v of
        Some e \<Rightarrow> (s, Inl e)
      | None \<Rightarrow>
          if 2147483647 < consumables_seq s
          then (s, Inl (SequenceLimit ''consumables_id_seq''))
          else
            let drawn = s\<lparr> consumables_seq := Suc (consumables_seq s) \<rparr>
            in (case pc_deviceId v of
                  None \<Rightarrow> (drawn, Inl (NotNullViolation ''device_id''))
                | Some dev \<Rightarrow>
               (case pc_name v of
                  None \<Rightarrow> (drawn, Inl (NotNullViolation ''name''))
                | Some n \<Rightarrow>
                    let row = \<lparr> c_id = consumables_seq s, c_deviceId = dev, c_name = n,
                                c_description = orNull (pc_description v),
                                c_storage_location = orNull (pc_storage_location v),
                                c_url = orNull (pc_url v),
                                c_cost = orNull (pc_cost v) \<rparr>
                    in (drawn\<lparr> consumables := consumables s @ [row] \<rparr>, Inr [row]))))"

text \<open>\<open>is_completed\<close> has the default \<open>false\<close>; \<open>device_id\<close>, \<open>name\<close> and
  \<open>interval_days\<close> are \<open>notNull\<close> without a default.\<close>

definition insert_maintenanceTasks :: "task_body \<Rightarrow> db \<Rightarrow> db \<times> (error + task list)" where
  "insert_maintenanceTasks v s =
     (case task_params v of
        Some e \<Rightarrow> (s, Inl e)
      | None \<Rightarrow>
          if 2147483647 < maintenanceTasks_seq s
          then (s, Inl (SequenceLimit ''maintenance_tasks_id_seq''))
          else
            let drawn = s\<lparr> maintenanceTasks_seq := Suc (maintenanceTasks_seq s) \<rparr>
            in (case pt_deviceId v of
                  None \<Rightarrow> (drawn, Inl (NotNullViolation ''device_id''))
                | Some dev \<Rightarrow>
               (case pt_name v of
                  None \<Rightarrow> (drawn, Inl (NotNullViolation ''name''))
                | Some n \<Rightarrow>
               (case pt_intervalDays v of
                  None \<Rightarrow> (drawn, Inl (NotNullViolation ''interval_days''))
                | Some iv \<Rightarrow>
                    if \<not> completedBy_fk s (pt_completedBy v)
                    then (drawn, Inl (ForeignKeyViolation ''completed_by''))
                    else
                      let row = \<lparr> t_id = maintenanceTasks_seq s, t_deviceId = dev,
                                  t_name = n,
                                  t_description = orNull (pt_description v),
                                  t_intervalDays = iv,
                                  t_lastCompleted = timestamp (orNull (pt_lastCompleted v)),
                                  t_isCompleted =
                                    (case pt_isCompleted v of
                                       None \<Rightarrow> Some False
                                     | Some b \<Rightarrow> b),
                                  t_completedBy = orNull (pt_completedBy v),
                                  t_completedByUsername =
                                    orNull (pt_completedByUsername v) \<rparr>
                      in (drawn\<lparr> maintenanceTasks := maintenanceTasks s @ [row] \<rparr>,
                          Inr [row])))))"

subsection \<open>Update\<close>

text \<open>\<open>db.update(t).set(v).where(eq(t.id, id)).returning()\<close>: the rows with that key
  are rewritten in place and returned. A statement that is refused writes nothing.\<close>

definition update_devices :: "device_body \<Rightarrow> nat \<Rightarrow> db \<Rightarrow> db \<times> (error + device list)" where
  "update_devices v i s =
     (if device_body_empty v then (s, Inl NoValuesToSet)
      else
        (case device_params v of
           Some e \<Rightarrow> (s, Inl e)
         | None \<Rightarrow>
             (s\<lparr> devices := map (\<lambda>d. if d_id d = i then set_device v d else d) (devices s) \<rparr>,
              Inr (map (set_device v) (filter (\<lambda>d. d_id d = i) (devices s))))))"

definition update_consumables ::
  "consumable_body \<Rightarrow> nat \<Rightarrow> db \<Rightarrow> db \<times> (error + consumable list)" where
  "update_consumables v i s =
     (if consumable_body_empty v then (s, Inl NoValuesToSet)
      else
        (case consumable_params v of
           Some e \<Rightarrow> (s, Inl e)
         | None \<Rightarrow>
             (s\<lparr> consumables :=
                    map (\<lambda>c. if c_id c = i then set_consumable v c else c) (consumables s) \<rparr>,
              Inr (map (set_consumable v) (filter (\<lambda>c. c_id c = i) (consumables s))))))"

definition update_maintenanceTasks ::
  "task_body \<Rightarrow> nat \<Rightarrow> db \<Rightarrow> db \<times> (error + task list)" where
  "update_maintenanceTasks v i s =
     (if task_body_empty v then (s, Inl NoValuesToSet)
      else
        (case task_params v of
           Some e \<Rightarrow> (s, Inl e)
         | None \<Rightarrow>
             if list_ex (\<lambda>t. t_id t = i) (maintenanceTasks s)
                \<and> \<not> completedBy_fk s (pt_completedBy v)
             then (s, Inl (ForeignKeyViolation ''completed_by''))
             else
               (s\<lparr> maintenanceTasks :=
                      map (\<lambda>t. if t_id t = i then set_task v t else t) (maintenanceTasks s) \<rparr>,
                Inr (map (set_task v) (filter (\<lambda>t. t_id t = i) (maintenanceTasks s))))))"

section \<open>The storage layer (class DatabaseStorage)\<close>

text \<open>
  Every function takes the store and returns the store it leaves behind with its result,
  \<open>Inl\<close> the error it throws. A statement that the store refuses for a reason of its
  own (\<open>PersistenceError\<close>) is part of the model where the source reacts to it (the
  \<open>try\<close>/\<open>catch\<close> of the consumable routes) and where the three statements of
  \<open>deleteDevice\<close> follow one another: there the argument \<open>fails\<close> says which statement
  is refused. A refused statement changes nothing and makes the function throw; the
  statements before it have already taken effect.
\<close>

definition getDevices :: "nat \<Rightarrow> db \<Rightarrow> device list" where
  "getDevices userId s = filter (\<lambda>d. d_userId d = userId) (devices s)"

definition getDevice :: "nat \<Rightarrow> db \<Rightarrow> device option" where
  "getDevice i s = first (filter (\<lambda>d. d_id d = i) (devices s))"

text \<open>\<open>x ? new Date(x) : null\<close>. The empty string is falsy, every other string and
  every object is truthy; \<open>new Date\<close> of a string is the date it parses to, which may
  be invalid, and of a \<open>Date\<close> a copy of it.\<close>

fun truthy :: "datevalue \<Rightarrow> bool" where
  "truthy (Str x p) = (x \<noteq> [])"
| "truthy (Date p) = True"

fun new_Date :: "datevalue \<Rightarrow> datevalue" where
  "new_Date (Str x p) = Date p"
| "new_Date (Date p) = Date p"

definition dateOrNull :: "datevalue option option \<Rightarrow> datevalue option" where
  "dateOrNull v =
     (case v of
        Some (Some x) \<Rightarrow> if truthy x then Some (new_Date x) else None
      | _ \<Rightarrow> None)"

definition deviceData :: "device_body \<Rightarrow> device_body" where
  "deviceData device =
     device\<lparr> pd_purchaseDate := Some (dateOrNull (pd_purchaseDate device)),
             pd_warrantyExpirationDate :=
               Some (dateOrNull (pd_warrantyExpirationDate device)) \<rparr>"

definition createDevice :: "device_body \<Rightarrow> db \<Rightarrow> db \<times> (error + device option)" where
  "createDevice device s =
     (case insert_devices (deviceData device) s of
        (s', Inl e) \<Rightarrow> (s', Inl e)
      | (s', Inr rows) \<Rightarrow> (s', Inr (first rows)))"

definition updateDevice ::
  "nat \<Rightarrow> device_body \<Rightarrow> db \<Rightarrow> db \<times> (error + device option)" where
  "updateDevice i device s =
     (case update_devices (deviceData device) i s of
        (s', Inl e) \<Rightarrow> (s', Inl e)
      | (s', Inr rows) \<Rightarrow> (s', Inr (first rows)))"

definition deleteDevice :: "(nat \<Rightarrow> bool) \<Rightarrow> nat \<Rightarrow> db \<Rightarrow> db \<times> (error + unit)" where
  "deleteDevice fails i s =
     (if fails 1 then (s, Inl PersistenceError)
      else
        let s1 = s\<lparr> consumables := filter (\<lambda>c. c_deviceId c \<noteq> i) (consumables s) \<rparr>
        in if fails 2 then (s1, Inl PersistenceError)
           else
             let s2 = s1\<lparr> maintenanceTasks :=
                            filter (\<lambda>t. t_deviceId t \<noteq> i) (maintenanceTasks s1) \<rparr>
             in if fails 3 then (s2, Inl PersistenceError)
                else (s2\<lparr> devices := filter (\<lambda>d. d_id d \<noteq> i) (devices s2) \<rparr>, Inr ()))"

definition getConsumables :: "nat \<Rightarrow> db \<Rightarrow> consumable list" where
  "getConsumables deviceId s = filter (\<lambda>c. c_deviceId c = deviceId) (consumables s)"

definition getConsumable :: "nat \<Rightarrow> db \<Rightarrow> consumable option" where
  "getConsumable i s = first (filter (\<lambda>c. c_id c = i) (consumables s))"

definition createConsumable ::
  "consumable_body \<Rightarrow> db \<Rightarrow> db \<times> (error + consumable option)" where
  "createConsumable consumable s =
     (case insert_consumables consumable s of
        (s', Inl e) \<Rightarrow> (s', Inl e)
      | (s', Inr rows) \<Rightarrow> (s', Inr (first rows)))"

definition updateConsumable ::
  "bool \<Rightarrow> nat \<Rightarrow> consumable_body \<Rightarrow> db \<Rightarrow> db \<times> (error + consumable option)" where
  "updateConsumable fails i consumable s =
     (if fails then (s, Inl PersistenceError)
      else (case update_consumables consumable i s of
              (s', Inl e) \<Rightarrow> (s', Inl e)
            | (s', Inr rows) \<Rightarrow> (s', Inr (first rows))))"

definition deleteConsumable :: "bool \<Rightarrow> nat \<Rightarrow> db \<Rightarrow> db \<times> (error + unit)" where
  "deleteConsumable fails i s =
     (if fails then (s, Inl PersistenceError)
      else (s\<lparr> consumables := filter (\<lambda>c. c_id c \<noteq> i) (consumables s) \<rparr>, Inr ()))"

definition getTasks :: "nat \<Rightarrow> db \<Rightarrow> task list" where
  "getTasks deviceId s = filter (\<lambda>t. t_deviceId t = deviceId) (maintenanceTasks s)"

definition getTask :: "nat \<Rightarrow> db \<Rightarrow> task option" where
  "getTask i s = first (filter (\<lambda>t. t_id t = i) (maintenanceTasks s))"

definition createTask :: "task_body \<Rightarrow> db \<Rightarrow> db \<times> (error + task option)" where
  "createTask task s =
     (case insert_maintenanceTasks task s of
        (s', Inl e) \<Rightarrow> (s', Inl e)
      | (s', Inr rows) \<Rightarrow> (s', Inr (first rows)))"

definition updateTask :: "nat \<Rightarrow> task_body \<Rightarrow> db \<Rightarrow> db \<times> (error + task option)" where
  "updateTask i task s =
     (case update_maintenanceTasks task i s of
        (s', Inl e) \<Rightarrow> (s', Inl e)
      | (s', Inr rows) \<Rightarrow> (s', Inr (first rows)))"

text \<open>The values that \<open>completeTask\<close> sets; \<open>now\<close> is the instant of \<open>new Date()\<close>.\<close>

definition completion :: "instant \<Rightarrow> nat \<Rightarrow> string \<Rightarrow> task_body" where
  "completion now userId username =
     \<lparr> pt_deviceId = None, pt_name = None, pt_description = None, pt_intervalDays = None,
       pt_lastCompleted = Some (Some (Date (Some now))),
       pt_isCompleted = Some (Some True),
       pt_completedBy = Some (Some userId),
       pt_completedByUsername = Some (Some username) \<rparr>"

definition completeTask ::
  "instant \<Rightarrow> nat \<Rightarrow> nat \<Rightarrow> string \<Rightarrow> db \<Rightarrow> db \<times> (error + task option)" where
  "completeTask now i userId username s =
     (case update_maintenanceTasks (completion now userId username) i s of
        (s', Inl e) \<Rightarrow> (s', Inl e)
      | (s', Inr rows) \<Rightarrow> (s', Inr (first rows)))"

definition deleteTask :: "nat \<Rightarrow> db \<Rightarrow> db" where
  "deleteTask i s = s\<lparr> maintenanceTasks := filter (\<lambda>t. t_id t \<noteq> i) (maintenanceTasks s) \<rparr>"

section \<open>The routes (registerRoutes)\<close>

text \<open>
  A handler takes the session's user (\<open>None\<close> when \<open>req.isAuthenticated()\<close> is false),
  the key parsed from the path, the body, and the store. Its outcome is the response
  it sends, or \<open>Rejected\<close> when the storage call throws and the handler has no
  \<open>catch\<close>.
\<close>

datatype json =
    JError string
  | JDevice "device option"
  | JConsumable "consumable option"
  | JTask "task option"

datatype response =
    SendStatus nat
  | Json nat json
  | Rejected error

definition post_devices :: "user option \<Rightarrow> device_body \<Rightarrow> db \<Rightarrow> db \<times> response" where
  "post_devices usr body s =
     (case usr of
        None \<Rightarrow> (s, SendStatus 401)
      | Some u \<Rightarrow>
          (case createDevice (body\<lparr> pd_userId := Some (u_id u) \<rparr>) s of
             (s', Inl e) \<Rightarrow> (s', Rejected e)
           | (s', Inr device) \<Rightarrow> (s', Json 201 (JDevice device))))"

definition put_devices_id ::
  "user option \<Rightarrow> nat \<Rightarrow> device_body \<Rightarrow> db \<Rightarrow> db \<times> response" where
  "put_devices_id usr i body s =
     (case usr of
        None \<Rightarrow> (s, SendStatus 401)
      | Some u \<Rightarrow>
          (case getDevice i s of
             None \<Rightarrow> (s, SendStatus 404)
           | Some device \<Rightarrow>
               if d_userId device \<noteq> u_id u then (s, SendStatus 404)
               else (case updateDevice (d_id device) body s of
                      (s', Inl e) \<Rightarrow> (s', Rejected e)
                    | (s', Inr updated) \<Rightarrow> (s', Json 200 (JDevice updated)))))"

definition delete_devices_id ::
  "(nat \<Rightarrow> bool) \<Rightarrow> user option \<Rightarrow> nat \<Rightarrow> db \<Rightarrow> db \<times> response" where
  "delete_devices_id fails usr i s =
     (case usr of
        None \<Rightarrow> (s, SendStatus 401)
      | Some u \<Rightarrow>
          (case getDevice i s of
             None \<Rightarrow> (s, SendStatus 404)
           | Some device \<Rightarrow>
               if d_userId device \<noteq> u_id u then (s, SendStatus 404)
               else (case deleteDevice fails (d_id device) s of
                      (s', Inl e) \<Rightarrow> (s', Rejected e)
                    | (s', Inr _) \<Rightarrow> (s', SendStatus 204))))"

definition post_devices_id_consumables ::
  "user option \<Rightarrow> nat \<Rightarrow> consumable_body \<Rightarrow> db \<Rightarrow> db \<times> response" where
  "post_devices_id_consumables usr i body s =
     (case usr of
        None \<Rightarrow> (s, SendStatus 401)
      | Some u \<Rightarrow>
          (case getDevice i s of
             None \<Rightarrow> (s, SendStatus 404)
           | Some device \<Rightarrow>
               if d_userId device \<noteq> u_id u then (s, SendStatus 404)
               else (case createConsumable (body\<lparr> pc_deviceId := Some (d_id device) \<rparr>) s of
                      (s', Inl e) \<Rightarrow> (s', Rejected e)
                    | (s', Inr consumable) \<Rightarrow> (s', Json 201 (JConsumable consumable)))))"

definition put_consumables_id ::
  "bool \<Rightarrow> user option \<Rightarrow> nat \<Rightarrow> consumable_body \<Rightarrow> db \<Rightarrow> db \<times> response" where
  "put_consumables_id fails usr i body s =
     (case usr of
        None \<Rightarrow> (s, SendStatus 401)
      | Some u \<Rightarrow>
          (case getConsumable i s of
             None \<Rightarrow> (s, Json 404 (JError ''Consumable not found''))
           | Some consumable \<Rightarrow>
               (case getDevice (c_deviceId consumable) s of
                  None \<Rightarrow> (s, Json 403 (JError ''Not authorized to update this consumable''))
                | Some device \<Rightarrow>
                    if d_userId device \<noteq> u_id u
                    then (s, Json 403 (JError ''Not authorized to update this consumable''))
                    else (case updateConsumable fails i body s of
                           (s', Inl e) \<Rightarrow> (s', Json 500 (JError ''Failed to update consumable''))
                         | (s', Inr updated) \<Rightarrow> (s', Json 200 (JConsumable updated))))))"

definition delete_consumables_id ::
  "bool \<Rightarrow> user option \<Rightarrow> nat \<Rightarrow> db \<Rightarrow> db \<times> response" where
  "delete_consumables_id fails usr i s =
     (case usr of
        None \<Rightarrow> (s, SendStatus 401)
      | Some u \<Rightarrow>
          (case getConsumable i s of
             None \<Rightarrow> (s, Json 404 (JError ''Consumable not found''))
           | Some consumable \<Rightarrow>
               (case getDevice (c_deviceId consumable) s of
                  None \<Rightarrow> (s, Json 403 (JError ''Not authorized to delete this consumable''))
                | Some device \<Rightarrow>
                    if d_userId device \<noteq> u_id u
                    then (s, Json 403 (JError ''Not authorized to delete this consumable''))
                    else (case deleteConsumable fails i s of
                           (s', Inl e) \<Rightarrow> (s', Json 500 (JError ''Failed to delete consumable''))
                         | (s', Inr _) \<Rightarrow> (s', SendStatus 204)))))"

definition post_devices_id_tasks ::
  "user option \<Rightarrow> nat \<Rightarrow> task_body \<Rightarrow> db \<Rightarrow> db \<times> response" where
  "post_devices_id_tasks usr i body s =
     (case usr of
        None \<Rightarrow> (s, SendStatus 401)
      | Some u \<Rightarrow>
          (case getDevice i s of
             None \<Rightarrow> (s, SendStatus 404)
           | Some device \<Rightarrow>
               if d_userId device \<noteq> u_id u then (s, SendStatus 404)
               else (case createTask (body\<lparr> pt_deviceId := Some (d_id device),
                                           pt_lastCompleted := Some None,
                                           pt_isCompleted := Some (Some False) \<rparr>) s of
                      (s', Inl e) \<Rightarrow> (s', Rejected e)
                    | (s', Inr task) \<Rightarrow> (s', Json 201 (JTask task)))))"

definition put_tasks_id ::
  "user option \<Rightarrow> nat \<Rightarrow> task_body \<Rightarrow> db \<Rightarrow> db \<times> response" where
  "put_tasks_id usr i body s =
     (case usr of
        None \<Rightarrow> (s, SendStatus 401)
      | Some u \<Rightarrow>
          (case getTask i s of
             None \<Rightarrow> (s, SendStatus 404)
           | Some task \<Rightarrow>
               (case getDevice (t_deviceId task) s of
                  None \<Rightarrow> (s, SendStatus 404)
                | Some device \<Rightarrow>
                    if d_userId device \<noteq> u_id u then (s, SendStatus 404)
                    else (case updateTask (t_id task) body s of
                           (s', Inl e) \<Rightarrow> (s', Rejected e)
                         | (s', Inr updated) \<Rightarrow> (s', Json 200 (JTask updated))))))"

definition post_tasks_id_complete ::
  "instant \<Rightarrow> user option \<Rightarrow> nat \<Rightarrow> db \<Rightarrow> db \<times> response" where
  "post_tasks_id_complete now usr i s =
     (case usr of
        None \<Rightarrow> (s, SendStatus 401)
      | Some u \<Rightarrow>
          (case getTask i s of
             None \<Rightarrow> (s, SendStatus 404)
           | Some task \<Rightarrow>
               (case getDevice (t_deviceId task) s of
                  None \<Rightarrow> (s, SendStatus 404)
                | Some device \<Rightarrow>
                    if d_userId device \<noteq> u_id u then (s, SendStatus 404)
                    else (case completeTask now (t_id task) (u_id u) (u_username u) s of
                           (s', Inl e) \<Rightarrow> (s', Rejected e)
                         | (s', Inr updated) \<Rightarrow> (s', Json 200 (JTask updated))))))"

definition delete_tasks_id :: "user option \<Rightarrow> nat \<Rightarrow> db \<Rightarrow> db \<times> response" where
  "delete_tasks_id usr i s =
     (case usr of
        None \<Rightarrow> (s, SendStatus 401)
      | Some u \<Rightarrow>
          (case getTask i s of
             None \<Rightarrow> (s, SendStatus 404)
           | Some task \<Rightarrow>
               (case getDevice (t_deviceId task) s of
                  None \<Rightarrow> (s, SendStatus 404)
                | Some device \<Rightarrow>
                    if d_userId device \<noteq> u_id u then (s, SendStatus 404)
                    else (deleteTask (t_id task) s, SendStatus 204))))"

section \<open>Sequences of requests\<close>

text \<open>
  The mutating requests of the API, each with what the handler reads besides the
  session: the key in the path, the body, the clock (\<open>new Date()\<close> in
  \<open>completeTask\<close>) and the statements the store refuses.
\<close>

datatype call =
    PostDevices device_body
  | PutDevice nat device_body
  | DeleteDevice "nat \<Rightarrow> bool" nat
  | PostConsumable nat consumable_body
  | PutConsumable bool nat consumable_body
  | DeleteConsumable bool nat
  | PostTask nat task_body
  | PutTask nat task_body
  | CompleteTask instant nat
  | DeleteTask nat

fun api :: "user option \<Rightarrow> call \<Rightarrow> db \<Rightarrow> db \<times> response" where
  "api usr (PostDevices body) s = post_devices usr body s"
| "api usr (PutDevice i body) s = put_devices_id usr i body s"
| "api usr (DeleteDevice fails i) s = delete_devices_id fails usr i s"
| "api usr (PostConsumable i body) s = post_devices_id_consumables usr i body s"
| "api usr (PutConsumable fails i body) s = put_consumables_id fails usr i body s"
| "api usr (DeleteConsumable fails i) s = delete_consumables_id fails usr i s"
| "api usr (PostTask i body) s = post_devices_id_tasks usr i body s"
| "api usr (PutTask i body) s = put_tasks_id usr i body s"
| "api usr (CompleteTask now i) s = post_tasks_id_complete now usr i s"
| "api usr (DeleteTask i) s = delete_tasks_id usr i s"

fun run :: "(user option \<times> call) list \<Rightarrow> db \<Rightarrow> db" where
  "run [] s = s"
| "run ((usr, c) # cs) s = run cs (fst (api usr c s))"

text \<open>A device update whose body does not carry \<open>userId\<close>; a task update whose body
  carries neither \<open>lastCompleted\<close> nor \<open>isCompleted\<close>. Other requests are not
  restricted.\<close>

fun no_userId :: "call \<Rightarrow> bool" where
  "no_userId (PutDevice i body) = (pd_userId body = None)"
| "no_userId _ = True"

fun no_completion_state :: "call \<Rightarrow> bool" where
  "no_completion_state (PutTask i body) =
     (pt_lastCompleted body = None \<and> pt_isCompleted body = None)"
| "no_completion_state _ = True"


section \<open>The task form (shared/schema.ts, devices-page.tsx)\<close>





section \<open>Due and upcoming tasks (home page)\<close>

text \<open>
  The two filters of the home page. \<open>addDays\<close> of date-fns is not code of this
  repository: it adds calendar days in the time zone of the browser, so that a day may
  have 23 or 25 hours, and it yields an Invalid Date when the result is outside the range
  of \<open>Date\<close>. It is a parameter of the filters, \<open>None\<close> standing for the Invalid Date.
  \<open>isBefore\<close> and \<open>isAfter\<close> compare the instants of two dates and are false when one
  of them is invalid. \<open>now\<close> is the instant of \<open>new Date()\<close>: the filters read the clock
  for every task, and the reads of one rendering are taken to give the same instant.
  The tasks are the rows as the server sent them, \<open>lastCompleted\<close> being \<open>null\<close> or the
  ISO form of the instant stored.
\<close>

definition isBefore :: "instant option \<Rightarrow> instant option \<Rightarrow> bool" where
  "isBefore d e = (case d of None \<Rightarrow> False | Some x \<Rightarrow> (case e of None \<Rightarrow> False | Some y \<Rightarrow> x < y))"

definition isAfter :: "instant option \<Rightarrow> instant option \<Rightarrow> bool" where
  "isAfter d e = (case d of None \<Rightarrow> False | Some x \<Rightarrow> (case e of None \<Rightarrow> False | Some y \<Rightarrow> x > y))"

definition dueTasks ::
  "(instant \<Rightarrow> int \<Rightarrow> instant option) \<Rightarrow> instant \<Rightarrow> task list \<Rightarrow> task list" where
  "dueTasks addDays now allTasks =
     filter (\<lambda>task.
        case t_lastCompleted task of
          None \<Rightarrow> True
        | Some lastCompleted \<Rightarrow>
            let nextDueDate = addDays lastCompleted (t_intervalDays task)
            in isBefore nextDueDate (Some now)) allTasks"

definition upcomingTasks ::
  "(instant \<Rightarrow> int \<Rightarrow> instant option) \<Rightarrow> instant \<Rightarrow> task list \<Rightarrow> task list" where
  "upcomingTasks addDays now allTasks =
     filter (\<lambda>task.
        case t_lastCompleted task of
          None \<Rightarrow> False
        | Some lastCompleted \<Rightarrow>
            let nextDueDate = addDays lastCompleted (t_intervalDays task);
                oneWeekFromNow = addDays now 7
            in isAfter nextDueDate (Some now) \<and> isBefore nextDueDate oneWeekFromNow) allTasks"

text \<open>
  \<open>addDays\<close> in a browser whose time zone is UTC, where every day has 86400000
  milliseconds: the sum, or the Invalid Date when the sum is more than 8.64e15
  milliseconds away from the epoch.
\<close>

definition addDays_UTC :: "instant \<Rightarrow> int \<Rightarrow> instant option" where
  "addDays_UTC d n =
     (let t = d + n * 86400000
      in if - 8640000000000000 \<le> t \<and> t \<le> 8640000000000000 then Some t else None)"

section \<open>Predicates of the statements\<close>

text \<open>The values of a date field for which \<open>x ? new Date(x) : null\<close> takes the
  \<open>null\<close> branch: the field is absent, \<open>null\<close>, or the empty string.\<close>

definition falsy :: "datevalue option option \<Rightarrow> bool" where
  "falsy v = (case v of None \<Rightarrow> True | Some None \<Rightarrow> True | Some (Some x) \<Rightarrow> \<not> truthy x)"

text \<open>The values for which it builds an Invalid Date: a string that is not empty and
  does not parse (or an invalid \<open>Date\<close>).\<close>

definition unparsable :: "datevalue option option \<Rightarrow> bool" where
  "unparsable v = (dateOrNull v = Some (Date None))"

text \<open>Which statement of a storage call the store refuses: the \<open>n\<close>-th, or none.\<close>

definition refuse :: "nat \<Rightarrow> nat \<Rightarrow> bool" where
  "refuse n k = (k = n)"

definition refuse_none :: "nat \<Rightarrow> bool" where
  "refuse_none k = False"

text \<open>The owner of the device with key \<open>i\<close>, if the store has such a device.\<close>

definition owner :: "db \<Rightarrow> nat \<Rightarrow> nat option" where
  "owner s i = map_option d_userId (getDevice i s)"

text \<open>The key of a task with its four completion fields; the invariant that relates
  two of them.\<close>

definition completion_of ::
  "task \<Rightarrow> nat \<times> instant option \<times> bool option \<times> nat option \<times> string option" where
  "completion_of t =
     (t_id t, t_lastCompleted t, t_isCompleted t, t_completedBy t, t_completedByUsername t)"

definition completed_iff :: "task \<Rightarrow> bool" where
  "completed_iff t = ((t_isCompleted t = Some True) = (t_lastCompleted t \<noteq> None))"

section \<open>A household used in the examples\<close>

definition alice :: user where
  "alice = \<lparr> u_id = 1, u_username = ''alice'' \<rparr>"

definition bob :: user where
  "bob = \<lparr> u_id = 2, u_username = ''bob'' \<rparr>"

definition empty_db :: db where
  "empty_db = \<lparr> users = [alice, bob], devices = [], consumables = [],
               maintenanceTasks = [], devices_seq = 1, consumables_seq = 1,
               maintenanceTasks_seq = 1 \<rparr>"

definition no_device :: device_body where
  "no_device = \<lparr> pd_name = None, pd_model = None, pd_location = None, pd_userId = None,
                 pd_imageUrl = None, pd_manualUrl = None, pd_consumablesUrl = None,
                 pd_purchaseDate = None, pd_warrantyExpirationDate = None,
                 pd_receiptUrl = None \<rparr>"

definition no_consumable :: consumable_body where
  "no_consumable = \<lparr> pc_deviceId = None, pc_name = None, pc_description = None,
                     pc_storage_location = None, pc_url = None, pc_cost = None \<rparr>"

definition no_task :: task_body where
  "no_task = \<lparr> pt_deviceId = None, pt_name = None, pt_description = None,
               pt_intervalDays = None, pt_lastCompleted = None, pt_isCompleted = None,
               pt_completedBy = None, pt_completedByUsername = None \<rparr>"

text \<open>Alice's furnace, bought on 2020-01-01 with a warranty until 2025-01-01, with a
  filter as consumable and the task of changing it every 30 days; Bob's boiler with a
  task and a consumable of its own.\<close>

definition furnace :: device where
  "furnace = \<lparr> d_id = 1, d_name = ''Furnace'', d_model = None, d_location = None,
               d_userId = 1, d_imageUrl = None, d_manualUrl = None,
               d_consumablesUrl = None, d_purchaseDate = Some 1577836800000,
               d_warrantyExpirationDate = Some 1735689600000, d_receiptUrl = None \<rparr>"

definition boiler :: device where
  "boiler = \<lparr> d_id = 2, d_name = ''Boiler'', d_model = None, d_location = None,
              d_userId = 2, d_imageUrl = None, d_manualUrl = None,
              d_consumablesUrl = None, d_purchaseDate = None,
              d_warrantyExpirationDate = None, d_receiptUrl = None \<rparr>"

definition air_filter :: consumable where
  "air_filter = \<lparr> c_id = 1, c_deviceId = 1, c_name = ''Filter'', c_description = None,
                  c_storage_location = None, c_url = None, c_cost = None \<rparr>"

definition anode :: consumable where
  "anode = \<lparr> c_id = 2, c_deviceId = 2, c_name = ''Anode'', c_description = None,
             c_storage_location = None, c_url = None, c_cost = None \<rparr>"

definition change_filter :: task where
  "change_filter = \<lparr> t_id = 1, t_deviceId = 1, t_name = ''Change filter'',
                     t_description = None, t_intervalDays = 30, t_lastCompleted = None,
                     t_isCompleted = Some False, t_completedBy = None,
                     t_completedByUsername = None \<rparr>"

definition descale :: task where
  "descale = \<lparr> t_id = 2, t_deviceId = 2, t_name = ''Descale'',
               t_description = None, t_intervalDays = 1, t_lastCompleted = Some 0,
               t_isCompleted = Some True, t_completedBy = Some 2,
               t_completedByUsername = Some ''bob'' \<rparr>"

definition home_db :: db where
  "home_db = \<lparr> users = [alice, bob], devices = [furnace, boiler],
              consumables = [air_filter, anode],
              maintenanceTasks = [change_filter, descale],
              devices_seq = 3, consumables_seq = 3, maintenanceTasks_seq = 3 \<rparr>"

definition rename_only :: device_body where
  "rename_only = no_device\<lparr> pd_name := Some ''Old furnace'' \<rparr>"

definition spoofed_device :: device_body where
  "spoofed_device = no_device\<lparr> pd_name := Some ''Washer'', pd_userId := Some 2 \<rparr>"

definition spoofed_consumable :: consumable_body where
  "spoofed_consumable = no_consumable\<lparr> pc_name := Some ''Salt'', pc_deviceId := Some 2 \<rparr>"

definition spoofed_task :: task_body where
  "spoofed_task = no_task\<lparr> pt_name := Some ''Clean'', pt_intervalDays := Some 7,
                            pt_deviceId := Some 2 \<rparr>"

definition filter_changed :: task where
  "filter_changed = change_filter\<lparr> t_lastCompleted := Some 1704067200000,
                                    t_isCompleted := Some True, t_completedBy := Some 1,
                                    t_completedByUsername := Some ''alice'' \<rparr>"




definition give_away :: device_body where
  "give_away = no_device\<lparr> pd_userId := Some 2 \<rparr>"


definition flag_only :: task_body where
  "flag_only = no_task\<lparr> pt_isCompleted := Some (Some True) \<rparr>"

definition new_furnace :: device_body where
  "new_furnace = no_device\<lparr> pd_name := Some ''Furnace'' \<rparr>"

definition new_task :: task_body where
  "new_task = no_task\<lparr> pt_name := Some ''Change filter'', pt_intervalDays := Some 30 \<rparr>"

definition flagging :: "(user option \<times> call) list" where
  "flagging = [(Some alice, PostDevices new_furnace), (Some alice, PostTask 1 new_task),
               (Some alice, PutTask 1 flag_only)]"

definition retitle :: task_body where
  "retitle = no_task\<lparr> pt_name := Some ''Swap filter'', pt_intervalDays := Some 60 \<rparr>"

definition flagged :: task where
  "flagged = \<lparr> t_id = 1, t_deviceId = 1, t_name = ''Change filter'', t_description = None,
               t_intervalDays = 30, t_lastCompleted = None, t_isCompleted = Some True,
               t_completedBy = None, t_completedByUsername = None \<rparr>"

definition retitle_complete :: "(user option \<times> call) list" where
  "retitle_complete = [(Some alice, PutTask 1 retitle), (Some alice, CompleteTask 1000 1)]"




text \<open>A body whose warranty date is a string that does not parse.\<close>

definition bad_warranty :: device_body where
  "bad_warranty = no_device\<lparr> pd_warrantyExpirationDate := Some (Some (Str ''garbage'' None)) \<rparr>"


text \<open>The descaling task with the least interval the column can hold.\<close>

definition far_back :: task where
  "far_back = descale\<lparr> t_intervalDays := - 2147483648 \<rparr>"

text \<open>The furnace after it is renamed with \<open>rename_only\<close>, and the requests of Alice
  that rename it and complete its task.\<close>

definition old_furnace :: device where
  "old_furnace = furnace\<lparr> d_name := ''Old furnace'', d_purchaseDate := None,
                          d_warrantyExpirationDate := None \<rparr>"

definition renaming :: "(user option \<times> call) list" where
  "renaming = [(Some alice, PutDevice 1 rename_only), (Some alice, CompleteTask 5 1)]"

section \<open>Basic facts about the statements\<close>

lemma first_filter_SomeD: "first (filter P xs) = Some x \<Longrightarrow> P x \<and> x \<in> set xs"
  by (induction xs) (auto simp: first_def split: if_splits)

lemma first_filter_None: "first (filter P xs) = None \<longleftrightarrow> (\<forall>x\<in>set xs. \<not> P x)"
  by (induction xs) (auto simp: first_def)

lemma first_map: "first (map f xs) = map_option f (first xs)"
  by (cases xs) (simp_all add: first_def)

lemma first_filter_map_upd:
  assumes "\<And>x. key (f x) = key x"
  shows "first (filter (\<lambda>x. key x = j) (map (\<lambda>x. if key x = i then f x else x) xs))
         = map_option (\<lambda>x. if key x = i then f x else x) (first (filter (\<lambda>x. key x = j) xs))"
  using assms by (induction xs) (auto simp: first_def)

lemma getDevice_id: "getDevice i s = Some d \<Longrightarrow> d_id d = i"
  by (auto simp: getDevice_def dest: first_filter_SomeD)

lemma getTask_id: "getTask i s = Some t \<Longrightarrow> t_id t = i"
  by (auto simp: getTask_def dest: first_filter_SomeD)

lemma getConsumable_id: "getConsumable i s = Some c \<Longrightarrow> c_id c = i"
  by (auto simp: getConsumable_def dest: first_filter_SomeD)

lemma set_device_id [simp]: "d_id (set_device v d) = d_id d"
  by (simp add: set_device_def)

lemma set_task_id [simp]: "t_id (set_task v t) = t_id t"
  by (simp add: set_task_def)

lemma set_consumable_id [simp]: "c_id (set_consumable v c) = c_id c"
  by (simp add: set_consumable_def)

lemma first_Nil [simp]: "first [] = None"
  by (simp add: first_def)

lemma first_Cons [simp]: "first (x # xs) = Some x"
  by (simp add: first_def)

lemma first_append:
  "first (xs @ ys) = (case first xs of None \<Rightarrow> first ys | Some y \<Rightarrow> Some y)"
  by (cases xs) simp_all

lemma first_filter_append:
  "first (filter P (xs @ [x]))
   = (case first (filter P xs) of None \<Rightarrow> if P x then Some x else None | Some y \<Rightarrow> Some y)"
  by (cases "first (filter P xs)") (simp_all add: first_append)

lemma fst_case_sum:
  "fst (case p of (s', r) \<Rightarrow> (case r of Inl e \<Rightarrow> (s', f e) | Inr x \<Rightarrow> (s', g x))) = fst p"
  by (cases p) (auto split: sum.splits)

lemma fst_case_pair: "fst (case p of (s', r) \<Rightarrow> (s', f r)) = fst p"
  by (cases p) simp

lemma getDevice_unchanged: "devices s' = devices s \<Longrightarrow> getDevice i s' = getDevice i s"
  by (simp add: getDevice_def)

lemma dateOrNull_falsy: "falsy v \<Longrightarrow> dateOrNull v = None"
  by (auto simp: falsy_def dateOrNull_def split: option.splits)

subsection \<open>What an update leaves behind\<close>

lemma update_devices_cases:
  "(\<exists>e. update_devices v i s = (s, Inl e))
   \<or> (\<not> device_body_empty v \<and> device_params v = None
      \<and> update_devices v i s
          = (s\<lparr> devices := map (\<lambda>d. if d_id d = i then set_device v d else d) (devices s) \<rparr>,
             Inr (map (set_device v) (filter (\<lambda>d. d_id d = i) (devices s)))))"
  by (cases "device_params v") (simp_all add: update_devices_def)

lemma update_consumables_cases:
  "(\<exists>e. update_consumables v i s = (s, Inl e))
   \<or> (\<not> consumable_body_empty v \<and> consumable_params v = None
      \<and> update_consumables v i s
          = (s\<lparr> consumables :=
                  map (\<lambda>c. if c_id c = i then set_consumable v c else c) (consumables s) \<rparr>,
             Inr (map (set_consumable v) (filter (\<lambda>c. c_id c = i) (consumables s)))))"
  by (cases "consumable_params v") (simp_all add: update_consumables_def)

lemma update_maintenanceTasks_cases:
  "(\<exists>e. update_maintenanceTasks v i s = (s, Inl e))
   \<or> (\<not> task_body_empty v \<and> task_params v = None
      \<and> update_maintenanceTasks v i s
          = (s\<lparr> maintenanceTasks :=
                  map (\<lambda>t. if t_id t = i then set_task v t else t) (maintenanceTasks s) \<rparr>,
             Inr (map (set_task v) (filter (\<lambda>t. t_id t = i) (maintenanceTasks s)))))"
  by (cases "task_params v") (simp_all add: update_maintenanceTasks_def)

lemma update_devices_ok:
  assumes "\<not> device_body_empty v" "device_params v = None"
  shows "update_devices v i s
          = (s\<lparr> devices := map (\<lambda>d. if d_id d = i then set_device v d else d) (devices s) \<rparr>,
             Inr (map (set_device v) (filter (\<lambda>d. d_id d = i) (devices s))))"
  using assms by (simp add: update_devices_def)


lemma getDevice_map_set:
  "first (filter (\<lambda>d. d_id d = j)
            (map (\<lambda>d. if d_id d = i then set_device v d else d) ds))
   = map_option (\<lambda>d. if d_id d = i then set_device v d else d)
       (first (filter (\<lambda>d. d_id d = j) ds))"
  by (rule first_filter_map_upd [where key = d_id and f = "set_device v"]) simp

lemma deviceData_not_empty [simp]: "\<not> device_body_empty (deviceData body)"
  by (simp add: device_body_empty_def deviceData_def)

subsection \<open>The example household\<close>

lemma home_getDevice:
  "getDevice 1 home_db = Some furnace" "getDevice 2 home_db = Some boiler"
  "getDevice 9 home_db = None"
  by (simp_all add: getDevice_def home_db_def furnace_def boiler_def first_def)

lemma home_getTask:
  "getTask 1 home_db = Some change_filter" "getTask 2 home_db = Some descale"
  "getTask 9 home_db = None"
  by (simp_all add: getTask_def home_db_def change_filter_def descale_def first_def)

lemma home_getConsumable:
  "getConsumable 1 home_db = Some air_filter" "getConsumable 2 home_db = Some anode"
  "getConsumable 9 home_db = None"
  by (simp_all add: getConsumable_def home_db_def air_filter_def anode_def first_def)

subsection \<open>What an insert leaves behind\<close>

lemma insert_devices_cases:
  "(\<exists>e s'. insert_devices v s = (s', Inl e)
        \<and> (s' = s \<or> s' = s\<lparr> devices_seq := Suc (devices_seq s) \<rparr>))
   \<or> (\<exists>row. insert_devices v s
               = (s\<lparr> devices_seq := Suc (devices_seq s), devices := devices s @ [row] \<rparr>,
                  Inr [row])
          \<and> d_id row = devices_seq s \<and> pd_userId v = Some (d_userId row))"
  by (simp add: insert_devices_def Let_def split: option.splits)

lemma insert_consumables_cases:
  "(\<exists>e s'. insert_consumables v s = (s', Inl e)
        \<and> (s' = s \<or> s' = s\<lparr> consumables_seq := Suc (consumables_seq s) \<rparr>))
   \<or> (\<exists>row. insert_consumables v s
               = (s\<lparr> consumables_seq := Suc (consumables_seq s),
                     consumables := consumables s @ [row] \<rparr>,
                  Inr [row])
          \<and> c_id row = consumables_seq s \<and> pc_deviceId v = Some (c_deviceId row))"
  by (simp add: insert_consumables_def Let_def split: option.splits)

lemma insert_maintenanceTasks_cases:
  "(\<exists>e s'. insert_maintenanceTasks v s = (s', Inl e)
        \<and> (s' = s \<or> s' = s\<lparr> maintenanceTasks_seq := Suc (maintenanceTasks_seq s) \<rparr>))
   \<or> (\<exists>row. insert_maintenanceTasks v s
               = (s\<lparr> maintenanceTasks_seq := Suc (maintenanceTasks_seq s),
                     maintenanceTasks := maintenanceTasks s @ [row] \<rparr>,
                  Inr [row])
          \<and> t_id row = maintenanceTasks_seq s \<and> pt_deviceId v = Some (t_deviceId row)
          \<and> t_lastCompleted row = timestamp (orNull (pt_lastCompleted v))
          \<and> t_isCompleted row
              = (case pt_isCompleted v of None \<Rightarrow> Some False | Some b \<Rightarrow> b))"
  by (simp add: insert_maintenanceTasks_def Let_def split: option.splits)

section \<open>Responses to a missing or foreign entity\<close>

text \<open>
  Claim C8. For the signed-in user \<open>u\<close>: when device \<open>i\<close> is missing or belongs to
  another user, the device update and delete routes answer with the same bare 404 and
  leave the store as it is; when task \<open>j\<close> is missing, or its device is missing or
  belongs to another user, the task update, complete and delete routes answer with the
  same bare 404. The consumable update and delete routes answer 404 with the message
  "Consumable not found" when consumable \<open>k\<close> is missing, and 403 with a "Not
  authorized" message when the consumable exists and its device belongs to another user
  (or is missing).
\<close>

theorem not_found_or_forbidden:
  "((getDevice i s = None \<or> (\<exists>d. getDevice i s = Some d \<and> d_userId d \<noteq> u_id u)) \<longrightarrow>
      put_devices_id (Some u) i dbody s = (s, SendStatus 404)
      \<and> delete_devices_id fails (Some u) i s = (s, SendStatus 404))
   \<and> ((getTask j s = None
        \<or> (\<exists>t. getTask j s = Some t
               \<and> (getDevice (t_deviceId t) s = None
                  \<or> (\<exists>d. getDevice (t_deviceId t) s = Some d \<and> d_userId d \<noteq> u_id u)))) \<longrightarrow>
      put_tasks_id (Some u) j tbody s = (s, SendStatus 404)
      \<and> post_tasks_id_complete now (Some u) j s = (s, SendStatus 404)
      \<and> delete_tasks_id (Some u) j s = (s, SendStatus 404))
   \<and> (getConsumable k s = None \<longrightarrow>
      put_consumables_id f (Some u) k cbody s = (s, Json 404 (JError ''Consumable not found''))
      \<and> delete_consumables_id f (Some u) k s
          = (s, Json 404 (JError ''Consumable not found'')))
   \<and> ((\<exists>c. getConsumable k s = Some c
            \<and> (getDevice (c_deviceId c) s = None
               \<or> (\<exists>d. getDevice (c_deviceId c) s = Some d \<and> d_userId d \<noteq> u_id u))) \<longrightarrow>
      put_consumables_id f (Some u) k cbody s
        = (s, Json 403 (JError ''Not authorized to update this consumable''))
      \<and> delete_consumables_id f (Some u) k s
        = (s, Json 403 (JError ''Not authorized to delete this consumable'')))"
proof (intro conjI impI)
  assume "getDevice i s = None \<or> (\<exists>d. getDevice i s = Some d \<and> d_userId d \<noteq> u_id u)"
  then show "put_devices_id (Some u) i dbody s = (s, SendStatus 404)"
    and "delete_devices_id fails (Some u) i s = (s, SendStatus 404)"
    by (auto simp: put_devices_id_def delete_devices_id_def)
next
  assume "getTask j s = None
        \<or> (\<exists>t. getTask j s = Some t
               \<and> (getDevice (t_deviceId t) s = None
                  \<or> (\<exists>d. getDevice (t_deviceId t) s = Some d \<and> d_userId d \<noteq> u_id u)))"
  then show "put_tasks_id (Some u) j tbody s = (s, SendStatus 404)"
    and "post_tasks_id_complete now (Some u) j s = (s, SendStatus 404)"
    and "delete_tasks_id (Some u) j s = (s, SendStatus 404)"
    by (auto simp: put_tasks_id_def post_tasks_id_complete_def delete_tasks_id_def)
next
  assume "getConsumable k s = None"
  then show "put_consumables_id f (Some u) k cbody s
               = (s, Json 404 (JError ''Consumable not found''))"
    and "delete_consumables_id f (Some u) k s = (s, Json 404 (JError ''Consumable not found''))"
    by (simp_all add: put_consumables_id_def delete_consumables_id_def)
next
  assume "\<exists>c. getConsumable k s = Some c
            \<and> (getDevice (c_deviceId c) s = None
               \<or> (\<exists>d. getDevice (c_deviceId c) s = Some d \<and> d_userId d \<noteq> u_id u))"
  then show "put_consumables_id f (Some u) k cbody s
        = (s, Json 403 (JError ''Not authorized to update this consumable''))"
    and "delete_consumables_id f (Some u) k s
        = (s, Json 403 (JError ''Not authorized to delete this consumable''))"
    by (auto simp: put_consumables_id_def delete_consumables_id_def)
qed

text \<open>Alice asks for a device, a task and a consumable that do not exist (key 9) and
  for Bob's (key 2).\<close>

theorem not_found_or_forbidden_witness:
  "put_devices_id (Some alice) 9 no_device home_db = (home_db, SendStatus 404)
   \<and> put_devices_id (Some alice) 2 no_device home_db = (home_db, SendStatus 404)
   \<and> delete_tasks_id (Some alice) 9 home_db = (home_db, SendStatus 404)
   \<and> delete_tasks_id (Some alice) 2 home_db = (home_db, SendStatus 404)
   \<and> delete_consumables_id False (Some alice) 9 home_db
       = (home_db, Json 404 (JError ''Consumable not found''))
   \<and> delete_consumables_id False (Some alice) 2 home_db
       = (home_db, Json 403 (JError ''Not authorized to delete this consumable''))"
proof -
  have dev_missing: "getDevice 9 home_db = None
      \<or> (\<exists>d. getDevice 9 home_db = Some d \<and> d_userId d \<noteq> u_id alice)"
    by (simp add: home_getDevice)
  have dev_foreign: "getDevice 2 home_db = None
      \<or> (\<exists>d. getDevice 2 home_db = Some d \<and> d_userId d \<noteq> u_id alice)"
    by (simp add: home_getDevice boiler_def alice_def)
  have tsk_missing: "getTask 9 home_db = None
      \<or> (\<exists>t. getTask 9 home_db = Some t
             \<and> (getDevice (t_deviceId t) home_db = None
                \<or> (\<exists>d. getDevice (t_deviceId t) home_db = Some d \<and> d_userId d \<noteq> u_id alice)))"
    by (simp add: home_getTask)
  have descale_dev: "t_deviceId descale = 2"
    by (simp add: descale_def)
  have tsk_foreign: "getTask 2 home_db = None
      \<or> (\<exists>t. getTask 2 home_db = Some t
             \<and> (getDevice (t_deviceId t) home_db = None
                \<or> (\<exists>d. getDevice (t_deviceId t) home_db = Some d \<and> d_userId d \<noteq> u_id alice)))"
    by (simp add: home_getTask descale_dev home_getDevice boiler_def alice_def)
  have con_missing: "getConsumable 9 home_db = None"
    by (simp add: home_getConsumable)
  have anode_dev: "c_deviceId anode = 2"
    by (simp add: anode_def)
  have con_foreign: "\<exists>c. getConsumable 2 home_db = Some c
      \<and> (getDevice (c_deviceId c) home_db = None
         \<or> (\<exists>d. getDevice (c_deviceId c) home_db = Some d \<and> d_userId d \<noteq> u_id alice))"
    by (simp add: home_getConsumable anode_dev home_getDevice boiler_def alice_def)
  note a = not_found_or_forbidden
      [of 9 home_db alice no_device refuse_none 9 no_task 0 9 False no_consumable]
  note b = not_found_or_forbidden
      [of 2 home_db alice no_device refuse_none 2 no_task 0 2 False no_consumable]
  show ?thesis
    using a b dev_missing dev_foreign tsk_missing tsk_foreign con_missing con_foreign
    by blast
qed

section \<open>Device update and the two date columns\<close>

lemma updateDevice_ok:
  assumes "device_params (deviceData body) = None"
  shows "updateDevice i body s
         = (s\<lparr> devices := map (\<lambda>d. if d_id d = i then set_device (deviceData body) d else d)
                            (devices s) \<rparr>,
            Inr (map_option (set_device (deviceData body)) (getDevice i s)))"
  using assms
  by (simp add: updateDevice_def update_devices_ok getDevice_def first_map)

lemma updateDevice_throws:
  assumes "device_params (deviceData body) = Some e"
  shows "updateDevice i body s = (s, Inl e)"
  using assms by (simp add: updateDevice_def update_devices_def)

lemma unparsable_params:
  assumes "unparsable (pd_purchaseDate body) \<or> unparsable (pd_warrantyExpirationDate body)"
  shows "device_params (deviceData body) = Some RangeError"
proof (cases "unparsable (pd_purchaseDate body)")
  case True
  then show ?thesis
    by (simp add: device_params_def deviceData_def unparsable_def toISOString_def)
next
  case False
  then have w: "unparsable (pd_warrantyExpirationDate body)" using assms by simp
  have "toISOString (Some (dateOrNull (pd_purchaseDate body))) = None"
    using False
    by (cases "pd_purchaseDate body" rule: option.exhaust)
       (auto simp: toISOString_def dateOrNull_def unparsable_def
             split: option.splits datevalue.splits elim: new_Date.elims)
  then show ?thesis
    using w by (simp add: device_params_def deviceData_def unparsable_def toISOString_def)
qed

lemma set_device_falsy:
  "falsy (pd_purchaseDate body) \<Longrightarrow> d_purchaseDate (set_device (deviceData body) d) = None"
  "falsy (pd_warrantyExpirationDate body)
     \<Longrightarrow> d_warrantyExpirationDate (set_device (deviceData body) d) = None"
  by (simp_all add: set_device_def deviceData_def assign_def dateOrNull_falsy timestamp_def)

text \<open>
  Claim C9, as stated, fails when the update is not carried out. Alice updates her
  furnace with a body that omits \<open>purchaseDate\<close> and whose \<open>warrantyExpirationDate\<close> is
  the string "garbage": the query builder throws \<open>RangeError\<close> on the Invalid Date, the
  handler does not answer, and the furnace keeps its purchase date.
\<close>

theorem unparsable_date_counterexample:
  "falsy (pd_purchaseDate bad_warranty)
   \<and> getDevice 1 home_db = Some furnace
   \<and> d_purchaseDate furnace = Some 1577836800000
   \<and> updateDevice 1 bad_warranty home_db = (home_db, Inl RangeError)
   \<and> put_devices_id (Some alice) 1 bad_warranty home_db = (home_db, Rejected RangeError)"
proof -
  have f: "falsy (pd_purchaseDate bad_warranty)"
    by (simp add: falsy_def bad_warranty_def no_device_def)
  have g: "getDevice 1 home_db = Some furnace" by (rule home_getDevice)
  have o: "d_purchaseDate furnace = Some 1577836800000" "d_userId furnace = u_id alice"
    "d_id furnace = 1"
    by (simp_all add: furnace_def alice_def)
  have "unparsable (pd_warrantyExpirationDate bad_warranty)"
    by (simp add: unparsable_def dateOrNull_def bad_warranty_def)
  then have "device_params (deviceData bad_warranty) = Some RangeError"
    by (simp add: unparsable_params)
  then have u: "updateDevice 1 bad_warranty home_db = (home_db, Inl RangeError)"
    by (rule updateDevice_throws)
  have r: "put_devices_id (Some alice) 1 bad_warranty home_db = (home_db, Rejected RangeError)"
    using g o u by (simp add: put_devices_id_def)
  show ?thesis using f g o u r by simp
qed

text \<open>
  Claim C9, amended. For a device that exists: whenever \<open>updateDevice\<close> returns, it
  returns the updated row, which is the row the store then holds, and in it
  \<open>purchaseDate\<close> is NULL if the body's \<open>purchaseDate\<close> is absent or falsy, whatever it was
  before, and likewise \<open>warrantyExpirationDate\<close>. It returns whenever the values it sets
  pass as parameters. It throws \<open>RangeError\<close> when one of the two date fields of the body
  is a non-empty string that does not parse; and whenever it throws, the store is as it
  was.
\<close>

theorem updateDevice_resets_dates:
  assumes "getDevice i s = Some d"
  shows "(\<forall>r. snd (updateDevice i body s) = Inr r \<longrightarrow>
            (\<exists>d'. r = Some d'
               \<and> getDevice i (fst (updateDevice i body s)) = Some d'
               \<and> (falsy (pd_purchaseDate body) \<longrightarrow> d_purchaseDate d' = None)
               \<and> (falsy (pd_warrantyExpirationDate body) \<longrightarrow>
                     d_warrantyExpirationDate d' = None)))
       \<and> (device_params (deviceData body) = None \<longrightarrow>
            (\<exists>r. snd (updateDevice i body s) = Inr r))
       \<and> (unparsable (pd_purchaseDate body) \<or> unparsable (pd_warrantyExpirationDate body) \<longrightarrow>
            updateDevice i body s = (s, Inl RangeError))
       \<and> (\<forall>e. snd (updateDevice i body s) = Inl e \<longrightarrow> fst (updateDevice i body s) = s)"
proof (cases "device_params (deviceData body)")
  case None
  let ?d' = "set_device (deviceData body) d"
  have id: "d_id d = i" using assms by (rule getDevice_id)
  note u = updateDevice_ok [OF None, of i s]
  have r: "snd (updateDevice i body s) = Inr (Some ?d')"
    using assms by (simp add: u)
  have g: "getDevice i (fst (updateDevice i body s)) = Some ?d'"
    using assms id by (simp add: u getDevice_def getDevice_map_set)
  have np: "\<not> (unparsable (pd_purchaseDate body) \<or> unparsable (pd_warrantyExpirationDate body))"
    using None unparsable_params by fastforce
  show ?thesis
    using r g np None by (auto simp: set_device_falsy)
next
  case (Some e)
  note u = updateDevice_throws [OF Some, of i s]
  have "unparsable (pd_purchaseDate body) \<or> unparsable (pd_warrantyExpirationDate body)
        \<Longrightarrow> e = RangeError"
    using Some unparsable_params by fastforce
  then show ?thesis using Some by (auto simp: u)
qed

text \<open>Renaming the furnace, with a body that carries the name only, loses both of its
  dates.\<close>

theorem updateDevice_resets_dates_witness:
  "getDevice 1 home_db = Some furnace
   \<and> d_purchaseDate furnace = Some 1577836800000
   \<and> d_warrantyExpirationDate furnace = Some 1735689600000
   \<and> device_params (deviceData rename_only) = None
   \<and> (\<exists>d'. snd (updateDevice 1 rename_only home_db) = Inr (Some d')
          \<and> getDevice 1 (fst (updateDevice 1 rename_only home_db)) = Some d'
          \<and> d_purchaseDate d' = None \<and> d_warrantyExpirationDate d' = None)"
proof -
  have f: "falsy (pd_purchaseDate rename_only)" "falsy (pd_warrantyExpirationDate rename_only)"
    by (simp_all add: falsy_def rename_only_def no_device_def)
  have p: "device_params (deviceData rename_only) = None"
    by (simp add: device_params_def deviceData_def rename_only_def no_device_def
        toISOString_def dateOrNull_def check_text_def check_int_def check_timestamp_def
        timestamp_def orNull_def text_ok_def)
  have g: "getDevice 1 home_db = Some furnace" by (rule home_getDevice)
  note t = updateDevice_resets_dates [OF g, of rename_only]
  from t p obtain r where r: "snd (updateDevice 1 rename_only home_db) = Inr r" by blast
  with t f obtain d' where "r = Some d'"
    "getDevice 1 (fst (updateDevice 1 rename_only home_db)) = Some d'"
    "d_purchaseDate d' = None" "d_warrantyExpirationDate d' = None"
    by blast
  then show ?thesis using g p r by (auto simp: furnace_def)
qed

section \<open>Owner and parent of a created row\<close>

lemma post_devices_rows:
  "devices (fst (post_devices usr body s)) = devices s
   \<or> (\<exists>u d. usr = Some u
          \<and> devices (fst (post_devices usr body s)) = devices s @ [d]
          \<and> snd (post_devices usr body s) = Json 201 (JDevice (Some d))
          \<and> d_userId d = u_id u)"
proof (cases usr)
  case None
  then show ?thesis by (simp add: post_devices_def)
next
  case (Some u)
  let ?v = "deviceData (body\<lparr> pd_userId := Some (u_id u) \<rparr>)"
  have v: "pd_userId ?v = Some (u_id u)" by (simp add: deviceData_def)
  from insert_devices_cases [of ?v s] show ?thesis
    using Some v
    by (elim disjE exE conjE) (simp_all add: post_devices_def createDevice_def)
qed

lemma post_consumables_rows:
  "consumables (fst (post_devices_id_consumables usr i body s)) = consumables s
   \<or> (\<exists>u d c. usr = Some u \<and> getDevice i s = Some d \<and> d_userId d = u_id u
          \<and> consumables (fst (post_devices_id_consumables usr i body s)) = consumables s @ [c]
          \<and> snd (post_devices_id_consumables usr i body s) = Json 201 (JConsumable (Some c))
          \<and> c_deviceId c = i)"
proof (cases usr)
  case None
  then show ?thesis by (simp add: post_devices_id_consumables_def)
next
  case u: (Some u)
  show ?thesis
  proof (cases "getDevice i s")
    case None
    then show ?thesis using u by (simp add: post_devices_id_consumables_def)
  next
    case (Some d)
    then have id: "d_id d = i" by (rule getDevice_id)
    show ?thesis
    proof (cases "d_userId d = u_id u")
      case False
      then show ?thesis using u Some by (simp add: post_devices_id_consumables_def)
    next
      case True
      let ?v = "body\<lparr> pc_deviceId := Some (d_id d) \<rparr>"
      have v: "pc_deviceId ?v = Some i" using id by simp
      from insert_consumables_cases [of ?v s] show ?thesis
        using u Some True v
        by (elim disjE exE conjE)
           (simp_all add: post_devices_id_consumables_def createConsumable_def)
    qed
  qed
qed

lemma post_tasks_rows:
  "maintenanceTasks (fst (post_devices_id_tasks usr i body s)) = maintenanceTasks s
   \<or> (\<exists>u d t. usr = Some u \<and> getDevice i s = Some d \<and> d_userId d = u_id u
          \<and> maintenanceTasks (fst (post_devices_id_tasks usr i body s)) = maintenanceTasks s @ [t]
          \<and> snd (post_devices_id_tasks usr i body s) = Json 201 (JTask (Some t))
          \<and> t_deviceId t = i)"
proof (cases usr)
  case None
  then show ?thesis by (simp add: post_devices_id_tasks_def)
next
  case u: (Some u)
  show ?thesis
  proof (cases "getDevice i s")
    case None
    then show ?thesis using u by (simp add: post_devices_id_tasks_def)
  next
    case (Some d)
    then have id: "d_id d = i" by (rule getDevice_id)
    show ?thesis
    proof (cases "d_userId d = u_id u")
      case False
      then show ?thesis using u Some by (simp add: post_devices_id_tasks_def)
    next
      case True
      let ?v = "body\<lparr> pt_deviceId := Some (d_id d), pt_lastCompleted := Some None,
                       pt_isCompleted := Some (Some False) \<rparr>"
      have v: "pt_deviceId ?v = Some i" using id by simp
      from insert_maintenanceTasks_cases [of ?v s] show ?thesis
        using u Some True v
        by (elim disjE exE conjE)
           (simp_all add: post_devices_id_tasks_def createTask_def)
    qed
  qed
qed

text \<open>
  Claim C10. Whatever the body carries: \<open>POST /api/devices\<close> either adds no row or
  adds one device whose \<open>userId\<close> is the key of the signed-in user;
  \<open>POST /api/devices/:id/consumables\<close> and \<open>POST /api/devices/:id/tasks\<close> either add
  no row or add one row whose \<open>deviceId\<close> is the key in the path, and that device
  belongs to the signed-in user. The row added is the one sent back with status 201.
\<close>

theorem created_rows_owner:
  "(devices (fst (post_devices usr dbody s)) = devices s
    \<or> (\<exists>u d. usr = Some u
          \<and> devices (fst (post_devices usr dbody s)) = devices s @ [d]
          \<and> snd (post_devices usr dbody s) = Json 201 (JDevice (Some d))
          \<and> d_userId d = u_id u))
   \<and> (consumables (fst (post_devices_id_consumables usr i cbody s)) = consumables s
    \<or> (\<exists>u d c. usr = Some u \<and> getDevice i s = Some d \<and> d_userId d = u_id u
          \<and> consumables (fst (post_devices_id_consumables usr i cbody s)) = consumables s @ [c]
          \<and> snd (post_devices_id_consumables usr i cbody s) = Json 201 (JConsumable (Some c))
          \<and> c_deviceId c = i))
   \<and> (maintenanceTasks (fst (post_devices_id_tasks usr i tbody s)) = maintenanceTasks s
    \<or> (\<exists>u d t. usr = Some u \<and> getDevice i s = Some d \<and> d_userId d = u_id u
          \<and> maintenanceTasks (fst (post_devices_id_tasks usr i tbody s)) = maintenanceTasks s @ [t]
          \<and> snd (post_devices_id_tasks usr i tbody s) = Json 201 (JTask (Some t))
          \<and> t_deviceId t = i))"
  using post_devices_rows post_consumables_rows post_tasks_rows by blast

lemma spoofed_params:
  "device_params (deviceData (spoofed_device\<lparr> pd_userId := Some 1 \<rparr>)) = None"
  "consumable_params (spoofed_consumable\<lparr> pc_deviceId := Some 1 \<rparr>) = None"
  "task_params (spoofed_task\<lparr> pt_deviceId := Some 1, pt_lastCompleted := Some None,
                              pt_isCompleted := Some (Some False) \<rparr>) = None"
  by (simp_all add: device_params_def consumable_params_def task_params_def deviceData_def
      spoofed_device_def spoofed_consumable_def spoofed_task_def
      no_device_def no_consumable_def no_task_def
      toISOString_def dateOrNull_def check_text_def check_int_def check_timestamp_def
      timestamp_def orNull_def text_ok_def int4_def)

lemma spoofed_grow:
  "devices (fst (post_devices (Some alice) spoofed_device home_db)) \<noteq> devices home_db"
  "consumables (fst (post_devices_id_consumables (Some alice) 1 spoofed_consumable home_db))
     \<noteq> consumables home_db"
  "maintenanceTasks (fst (post_devices_id_tasks (Some alice) 1 spoofed_task home_db))
     \<noteq> maintenanceTasks home_db"
proof -
  have a: "u_id alice = 1" "d_userId furnace = 1" "d_id furnace = 1"
    by (simp_all add: alice_def furnace_def)
  have q: "devices_seq home_db = 3" "consumables_seq home_db = 3"
    "maintenanceTasks_seq home_db = 3" "users home_db = [alice, bob]"
    by (simp_all add: home_db_def)
  show "devices (fst (post_devices (Some alice) spoofed_device home_db)) \<noteq> devices home_db"
    using spoofed_params(1) a q
    by (simp add: post_devices_def createDevice_def insert_devices_def Let_def
        deviceData_def spoofed_device_def no_device_def)
  show "consumables (fst (post_devices_id_consumables (Some alice) 1 spoofed_consumable home_db))
     \<noteq> consumables home_db"
    using home_getDevice(1) spoofed_params(2) a q
    by (simp add: post_devices_id_consumables_def
        createConsumable_def insert_consumables_def spoofed_consumable_def no_consumable_def
        Let_def)
  show "maintenanceTasks (fst (post_devices_id_tasks (Some alice) 1 spoofed_task home_db))
     \<noteq> maintenanceTasks home_db"
    using home_getDevice(1) spoofed_params(3) a q
    by (simp add: post_devices_id_tasks_def
        createTask_def insert_maintenanceTasks_def spoofed_task_def no_task_def
        completedBy_fk_def Let_def)
qed

text \<open>Alice posts a device with \<open>userId = 2\<close> in the body, and a consumable and a
  task with \<open>deviceId = 2\<close> in the body to her device 1.\<close>

theorem created_rows_owner_witness:
  "pd_userId spoofed_device = Some 2 \<and> pc_deviceId spoofed_consumable = Some 2
   \<and> pt_deviceId spoofed_task = Some 2
   \<and> (\<exists>d. devices (fst (post_devices (Some alice) spoofed_device home_db))
             = devices home_db @ [d] \<and> d_userId d = 1)
   \<and> (\<exists>c. consumables (fst (post_devices_id_consumables (Some alice) 1 spoofed_consumable home_db))
             = consumables home_db @ [c] \<and> c_deviceId c = 1)
   \<and> (\<exists>t. maintenanceTasks (fst (post_devices_id_tasks (Some alice) 1 spoofed_task home_db))
             = maintenanceTasks home_db @ [t] \<and> t_deviceId t = 1)"
proof -
  have b: "pd_userId spoofed_device = Some 2" "pc_deviceId spoofed_consumable = Some 2"
    "pt_deviceId spoofed_task = Some 2"
    by (simp_all add: spoofed_device_def spoofed_consumable_def spoofed_task_def)
  have a: "u_id alice = 1" by (simp add: alice_def)
  note t = created_rows_owner [of "Some alice" spoofed_device home_db 1 spoofed_consumable
      spoofed_task]
  show ?thesis using t spoofed_grow b a by auto
qed

section \<open>The cascade of deleteDevice\<close>

lemma deleteDevice_ok:
  "deleteDevice refuse_none i s =
     (s\<lparr> consumables := filter (\<lambda>c. c_deviceId c \<noteq> i) (consumables s),
         maintenanceTasks := filter (\<lambda>t. t_deviceId t \<noteq> i) (maintenanceTasks s),
         devices := filter (\<lambda>d. d_id d \<noteq> i) (devices s) \<rparr>, Inr ())"
  by (simp add: deleteDevice_def refuse_none_def Let_def)

lemma deleteDevice_second:
  "deleteDevice (refuse 2) i s =
     (s\<lparr> consumables := filter (\<lambda>c. c_deviceId c \<noteq> i) (consumables s) \<rparr>,
      Inl PersistenceError)"
  by (simp add: deleteDevice_def refuse_def Let_def)

lemma deleteDevice_third:
  "deleteDevice (refuse 3) i s =
     (s\<lparr> consumables := filter (\<lambda>c. c_deviceId c \<noteq> i) (consumables s),
         maintenanceTasks := filter (\<lambda>t. t_deviceId t \<noteq> i) (maintenanceTasks s) \<rparr>,
      Inl PersistenceError)"
  by (simp add: deleteDevice_def refuse_def Let_def)

lemma filter_other_key:
  "j \<noteq> i \<Longrightarrow> filter (\<lambda>x. key x = j) (filter (\<lambda>x. key x \<noteq> i) xs) = filter (\<lambda>x. key x = j) xs"
  by (induction xs) auto

text \<open>
  Claim C7. When no statement is refused, \<open>deleteDevice i\<close> succeeds and leaves the
  store with the consumables of \<open>i\<close>, the tasks of \<open>i\<close> and the device \<open>i\<close> removed and
  everything else as it was: afterwards \<open>getConsumables i\<close> and \<open>getTasks i\<close> are empty
  and \<open>getDevice i\<close> is absent, while for every other device \<open>j\<close> the three reads give
  what they gave before, and the users and the sequences are untouched.
  The order of the three deletions shows in the store that a refused statement leaves
  behind: when the second is refused the consumables of \<open>i\<close> are gone and nothing else
  has changed; when the third is refused the consumables and the tasks of \<open>i\<close> are gone
  and nothing else has changed. For the owner of the device, \<open>DELETE /api/devices/:id\<close>
  runs this cascade and answers 204.
\<close>

theorem deleteDevice_cascade:
  "deleteDevice refuse_none i s
     = (s\<lparr> consumables := filter (\<lambda>c. c_deviceId c \<noteq> i) (consumables s),
           maintenanceTasks := filter (\<lambda>t. t_deviceId t \<noteq> i) (maintenanceTasks s),
           devices := filter (\<lambda>d. d_id d \<noteq> i) (devices s) \<rparr>, Inr ())
   \<and> getConsumables i (fst (deleteDevice refuse_none i s)) = []
   \<and> getTasks i (fst (deleteDevice refuse_none i s)) = []
   \<and> getDevice i (fst (deleteDevice refuse_none i s)) = None
   \<and> (\<forall>j. j \<noteq> i \<longrightarrow>
         getConsumables j (fst (deleteDevice refuse_none i s)) = getConsumables j s
       \<and> getTasks j (fst (deleteDevice refuse_none i s)) = getTasks j s
       \<and> getDevice j (fst (deleteDevice refuse_none i s)) = getDevice j s)
   \<and> users (fst (deleteDevice refuse_none i s)) = users s
   \<and> deleteDevice (refuse 2) i s
       = (s\<lparr> consumables := filter (\<lambda>c. c_deviceId c \<noteq> i) (consumables s) \<rparr>,
          Inl PersistenceError)
   \<and> getConsumables i (fst (deleteDevice (refuse 2) i s)) = []
   \<and> maintenanceTasks (fst (deleteDevice (refuse 2) i s)) = maintenanceTasks s
   \<and> devices (fst (deleteDevice (refuse 2) i s)) = devices s
   \<and> deleteDevice (refuse 3) i s
       = (s\<lparr> consumables := filter (\<lambda>c. c_deviceId c \<noteq> i) (consumables s),
             maintenanceTasks := filter (\<lambda>t. t_deviceId t \<noteq> i) (maintenanceTasks s) \<rparr>,
          Inl PersistenceError)
   \<and> getConsumables i (fst (deleteDevice (refuse 3) i s)) = []
   \<and> getTasks i (fst (deleteDevice (refuse 3) i s)) = []
   \<and> devices (fst (deleteDevice (refuse 3) i s)) = devices s
   \<and> (\<forall>u d. getDevice i s = Some d \<and> d_userId d = u_id u \<longrightarrow>
         delete_devices_id refuse_none (Some u) i s
           = (fst (deleteDevice refuse_none i s), SendStatus 204))"
proof -
  have ok: "getConsumables i (fst (deleteDevice refuse_none i s)) = []
   \<and> getTasks i (fst (deleteDevice refuse_none i s)) = []
   \<and> getDevice i (fst (deleteDevice refuse_none i s)) = None
   \<and> users (fst (deleteDevice refuse_none i s)) = users s"
    by (simp add: deleteDevice_ok getConsumables_def getTasks_def getDevice_def
        first_filter_None)
  have frame: "\<forall>j. j \<noteq> i \<longrightarrow>
         getConsumables j (fst (deleteDevice refuse_none i s)) = getConsumables j s
       \<and> getTasks j (fst (deleteDevice refuse_none i s)) = getTasks j s
       \<and> getDevice j (fst (deleteDevice refuse_none i s)) = getDevice j s"
    by (simp add: deleteDevice_ok getConsumables_def getTasks_def getDevice_def
        filter_other_key del: filter_filter)
  have two: "getConsumables i (fst (deleteDevice (refuse 2) i s)) = []
   \<and> maintenanceTasks (fst (deleteDevice (refuse 2) i s)) = maintenanceTasks s
   \<and> devices (fst (deleteDevice (refuse 2) i s)) = devices s"
    by (simp add: deleteDevice_second getConsumables_def)
  have three: "getConsumables i (fst (deleteDevice (refuse 3) i s)) = []
   \<and> getTasks i (fst (deleteDevice (refuse 3) i s)) = []
   \<and> devices (fst (deleteDevice (refuse 3) i s)) = devices s"
    by (simp add: deleteDevice_third getConsumables_def getTasks_def)
  have route: "\<forall>u d. getDevice i s = Some d \<and> d_userId d = u_id u \<longrightarrow>
         delete_devices_id refuse_none (Some u) i s
           = (fst (deleteDevice refuse_none i s), SendStatus 204)"
    by (auto simp: delete_devices_id_def deleteDevice_ok dest: getDevice_id)
  show ?thesis
    using ok frame two three route deleteDevice_ok [of i s] deleteDevice_second [of i s]
      deleteDevice_third [of i s]
    by blast
qed

lemma home_children:
  "getConsumables 1 home_db = [air_filter]" "getTasks 1 home_db = [change_filter]"
  "getConsumables 2 home_db = [anode]" "getTasks 2 home_db = [descale]"
  by (simp_all add: getConsumables_def getTasks_def home_db_def air_filter_def anode_def
      change_filter_def descale_def)

text \<open>Alice deletes her furnace, which has one consumable and one task; Bob's boiler,
  its consumable and its task stay.\<close>

theorem deleteDevice_cascade_witness:
  "getDevice 1 home_db = Some furnace
   \<and> getConsumables 1 home_db = [air_filter]
   \<and> getTasks 1 home_db = [change_filter]
   \<and> snd (delete_devices_id refuse_none (Some alice) 1 home_db) = SendStatus 204
   \<and> getConsumables 1 (fst (delete_devices_id refuse_none (Some alice) 1 home_db)) = []
   \<and> getTasks 1 (fst (delete_devices_id refuse_none (Some alice) 1 home_db)) = []
   \<and> getDevice 1 (fst (delete_devices_id refuse_none (Some alice) 1 home_db)) = None
   \<and> getConsumables 2 (fst (delete_devices_id refuse_none (Some alice) 1 home_db)) = [anode]
   \<and> getTasks 2 (fst (delete_devices_id refuse_none (Some alice) 1 home_db)) = [descale]
   \<and> getDevice 2 (fst (delete_devices_id refuse_none (Some alice) 1 home_db)) = Some boiler"
proof -
  have g: "getDevice 1 home_db = Some furnace" "getDevice 2 home_db = Some boiler"
    by (rule home_getDevice)+
  have o: "d_userId furnace = u_id alice" by (simp add: furnace_def alice_def)
  note t = deleteDevice_cascade [of 1 home_db]
  from t g o have r: "delete_devices_id refuse_none (Some alice) 1 home_db
           = (fst (deleteDevice refuse_none 1 home_db), SendStatus 204)"
    by blast
  have n: "(2::nat) \<noteq> 1" by simp
  from t n have f: "getConsumables 2 (fst (deleteDevice refuse_none 1 home_db))
                     = getConsumables 2 home_db
       \<and> getTasks 2 (fst (deleteDevice refuse_none 1 home_db)) = getTasks 2 home_db
       \<and> getDevice 2 (fst (deleteDevice refuse_none 1 home_db)) = getDevice 2 home_db"
    by blast
  from t have z: "getConsumables 1 (fst (deleteDevice refuse_none 1 home_db)) = []
       \<and> getTasks 1 (fst (deleteDevice refuse_none 1 home_db)) = []
       \<and> getDevice 1 (fst (deleteDevice refuse_none 1 home_db)) = None"
    by blast
  show ?thesis using z f g r home_children by simp
qed

text \<open>
  Claim C6, as stated, fails: the three deletions are separate statements with no
  transaction around them. When the second one is refused for the furnace, the call
  throws, the furnace and its task are still there, and its consumable is gone.
\<close>

theorem half_deleted_counterexample:
  "snd (deleteDevice (refuse 2) 1 home_db) = Inl PersistenceError
   \<and> getDevice 1 (fst (deleteDevice (refuse 2) 1 home_db)) = Some furnace
   \<and> getTasks 1 (fst (deleteDevice (refuse 2) 1 home_db)) = [change_filter]
   \<and> getConsumables 1 home_db = [air_filter]
   \<and> getConsumables 1 (fst (deleteDevice (refuse 2) 1 home_db)) = []"
  using home_getDevice(1) home_children(1,2)
  by (simp add: deleteDevice_second getDevice_def getTasks_def getConsumables_def)

text \<open>
  Claim C6, amended. When \<open>deleteDevice i\<close> throws, the error is the persistence
  error, the deletions made before the refused statement stay and the later ones are not
  made: the device rows are untouched (so the device is never removed while children of
  it remain); if the first statement was refused nothing has changed; otherwise the
  consumables of \<open>i\<close> are gone, and the tasks of \<open>i\<close> are untouched if the second
  statement was refused and gone if the third was. Rows of other devices are untouched.
\<close>

theorem deleteDevice_failure:
  assumes "deleteDevice fails i s = (s', Inl e)"
  shows "e = PersistenceError
       \<and> devices s' = devices s
       \<and> (fails 1 \<longrightarrow> s' = s)
       \<and> (\<not> fails 1 \<longrightarrow> getConsumables i s' = [])
       \<and> (\<not> fails 1 \<and> fails 2 \<longrightarrow> maintenanceTasks s' = maintenanceTasks s)
       \<and> (\<not> fails 1 \<and> \<not> fails 2 \<longrightarrow> getTasks i s' = [])
       \<and> (\<forall>j. j \<noteq> i \<longrightarrow> getConsumables j s' = getConsumables j s
                          \<and> getTasks j s' = getTasks j s)"
  using assms
  by (auto simp: deleteDevice_def Let_def getConsumables_def getTasks_def
           split: if_splits intro: filter_cong)

text \<open>The third statement is refused while the furnace is deleted.\<close>

theorem deleteDevice_failure_witness:
  "deleteDevice (refuse 3) 1 home_db
     = (fst (deleteDevice (refuse 3) 1 home_db), Inl PersistenceError)
   \<and> devices (fst (deleteDevice (refuse 3) 1 home_db)) = devices home_db
   \<and> getConsumables 1 (fst (deleteDevice (refuse 3) 1 home_db)) = []
   \<and> getTasks 1 (fst (deleteDevice (refuse 3) 1 home_db)) = []
   \<and> getTasks 2 (fst (deleteDevice (refuse 3) 1 home_db)) = getTasks 2 home_db"
proof -
  have r: "deleteDevice (refuse 3) 1 home_db
     = (fst (deleteDevice (refuse 3) 1 home_db), Inl PersistenceError)"
    by (simp add: deleteDevice_third)
  have f: "\<not> refuse 3 1" "\<not> refuse 3 2" by (simp_all add: refuse_def)
  show ?thesis using deleteDevice_failure [OF r] r f by simp
qed

section \<open>Overdue and due soon\<close>

text \<open>
  Claim C5, as stated, fails at the instant a task falls due. The descaling task was
  last completed at instant 0 and has an interval of one day; in a browser whose zone
  is UTC its next due date is the instant 86400000. At \<open>now = 86400000\<close> the claim's
  \<open>now \<le> nextDue < now + 7 days\<close> holds, yet the task is not among the upcoming ones,
  nor among the due ones: \<open>isAfter\<close> is strict.
\<close>

theorem due_soon_boundary_counterexample:
  "t_lastCompleted descale = Some 0
   \<and> t_intervalDays descale = 1
   \<and> addDays_UTC 0 1 = Some 86400000
   \<and> addDays_UTC 86400000 7 = Some 691200000
   \<and> (86400000 :: instant) \<le> 86400000
   \<and> (86400000 :: instant) < 691200000
   \<and> upcomingTasks addDays_UTC 86400000 [descale] = []
   \<and> dueTasks addDays_UTC 86400000 [descale] = []"
  by (simp add: descale_def upcomingTasks_def dueTasks_def addDays_UTC_def isAfter_def
      isBefore_def Let_def)

text \<open>
  Claim C5, amended. Whatever \<open>addDays\<close> computes: a task is listed as due iff it was
  never completed, or \<open>addDays\<close> of its last completion and \<open>intervalDays\<close> is a valid
  date strictly before \<open>now\<close>; it is listed as upcoming iff it was completed and that
  date is valid, strictly after \<open>now\<close>, and strictly before \<open>addDays now 7\<close>, which is
  valid too. So a completed task whose next due date is \<open>now\<close> itself, or is an Invalid
  Date, is in neither list; and no task is in both lists at the same instant.
\<close>

theorem due_and_upcoming:
  "(t \<in> set (dueTasks addDays now ts) \<longleftrightarrow>
      t \<in> set ts
      \<and> (t_lastCompleted t = None
         \<or> (\<exists>lc due. t_lastCompleted t = Some lc
               \<and> addDays lc (t_intervalDays t) = Some due \<and> due < now)))
   \<and> (t \<in> set (upcomingTasks addDays now ts) \<longleftrightarrow>
      t \<in> set ts
      \<and> (\<exists>lc due week. t_lastCompleted t = Some lc
              \<and> addDays lc (t_intervalDays t) = Some due \<and> addDays now 7 = Some week
              \<and> now < due \<and> due < week))
   \<and> (\<forall>lc. t_lastCompleted t = Some lc
          \<and> (addDays lc (t_intervalDays t) = None \<or> addDays lc (t_intervalDays t) = Some now)
        \<longrightarrow> t \<notin> set (dueTasks addDays now ts) \<and> t \<notin> set (upcomingTasks addDays now ts))
   \<and> \<not> (t \<in> set (dueTasks addDays now ts) \<and> t \<in> set (upcomingTasks addDays now ts))"
proof -
  have due: "t \<in> set (dueTasks addDays now ts) \<longleftrightarrow>
      t \<in> set ts
      \<and> (t_lastCompleted t = None
         \<or> (\<exists>lc due. t_lastCompleted t = Some lc
               \<and> addDays lc (t_intervalDays t) = Some due \<and> due < now))"
    by (cases "t_lastCompleted t")
       (auto simp: dueTasks_def isBefore_def Let_def split: option.splits)
  have up: "t \<in> set (upcomingTasks addDays now ts) \<longleftrightarrow>
      t \<in> set ts
      \<and> (\<exists>lc due week. t_lastCompleted t = Some lc
              \<and> addDays lc (t_intervalDays t) = Some due \<and> addDays now 7 = Some week
              \<and> now < due \<and> due < week)"
    by (cases "t_lastCompleted t")
       (auto simp: upcomingTasks_def isBefore_def isAfter_def Let_def split: option.splits)
  have neither: "\<forall>lc. t_lastCompleted t = Some lc
          \<and> (addDays lc (t_intervalDays t) = None \<or> addDays lc (t_intervalDays t) = Some now)
        \<longrightarrow> t \<notin> set (dueTasks addDays now ts) \<and> t \<notin> set (upcomingTasks addDays now ts)"
    unfolding due up by auto
  have excl: "\<not> (t \<in> set (dueTasks addDays now ts) \<and> t \<in> set (upcomingTasks addDays now ts))"
    unfolding due up by auto
  show ?thesis using due up neither excl by blast
qed

text \<open>In a browser whose zone is UTC. The filter task: never completed, it is due.
  Completed on 2024-01-01 with an interval of 30 days, it is upcoming and not due on
  2024-01-25, and due and not upcoming on 2024-02-05. The descaling task with an interval
  of -2147483648 days has an Invalid Date as its next due date and is in neither list.\<close>

theorem due_and_upcoming_witness:
  "change_filter \<in> set (dueTasks addDays_UTC 1706140800000 [change_filter, filter_changed])
   \<and> filter_changed \<notin> set (dueTasks addDays_UTC 1706140800000 [change_filter, filter_changed])
   \<and> filter_changed
       \<in> set (upcomingTasks addDays_UTC 1706140800000 [change_filter, filter_changed])
   \<and> filter_changed \<in> set (dueTasks addDays_UTC 1707091200000 [change_filter, filter_changed])
   \<and> filter_changed
       \<notin> set (upcomingTasks addDays_UTC 1707091200000 [change_filter, filter_changed])
   \<and> t_lastCompleted far_back = Some 0
   \<and> addDays_UTC 0 (t_intervalDays far_back) = None
   \<and> far_back \<notin> set (dueTasks addDays_UTC 1706140800000 [far_back])
   \<and> far_back \<notin> set (upcomingTasks addDays_UTC 1706140800000 [far_back])"
proof -
  have c: "t_lastCompleted change_filter = None"
    by (simp add: change_filter_def)
  have f: "t_lastCompleted filter_changed = Some 1704067200000"
    "t_intervalDays filter_changed = 30"
    by (simp_all add: filter_changed_def change_filter_def)
  have u: "addDays_UTC 1704067200000 30 = Some 1706659200000"
    "addDays_UTC 1706140800000 7 = Some 1706745600000"
    "addDays_UTC 1707091200000 7 = Some 1707696000000"
    by (simp_all add: addDays_UTC_def)
  have g: "t_lastCompleted far_back = Some 0" "t_intervalDays far_back = - 2147483648"
    "addDays_UTC 0 (- 2147483648) = None"
    by (simp_all add: far_back_def descale_def addDays_UTC_def)
  note a = due_and_upcoming [of change_filter addDays_UTC 1706140800000
      "[change_filter, filter_changed]"]
  note b = due_and_upcoming [of filter_changed addDays_UTC 1706140800000
      "[change_filter, filter_changed]"]
  note d = due_and_upcoming [of filter_changed addDays_UTC 1707091200000
      "[change_filter, filter_changed]"]
  note e = due_and_upcoming [of far_back addDays_UTC 1706140800000 "[far_back]"]
  have 1: "change_filter \<in> set (dueTasks addDays_UTC 1706140800000 [change_filter, filter_changed])"
    using a c by simp
  have 2: "filter_changed \<notin> set (dueTasks addDays_UTC 1706140800000 [change_filter, filter_changed])"
    using b f u by simp
  have 3: "filter_changed
       \<in> set (upcomingTasks addDays_UTC 1706140800000 [change_filter, filter_changed])"
    using b f u by simp
  have 4: "filter_changed \<in> set (dueTasks addDays_UTC 1707091200000 [change_filter, filter_changed])"
    using d f u by simp
  have 5: "filter_changed
       \<notin> set (upcomingTasks addDays_UTC 1707091200000 [change_filter, filter_changed])"
    using d f u by simp
  have 6: "far_back \<notin> set (dueTasks addDays_UTC 1706140800000 [far_back])
     \<and> far_back \<notin> set (upcomingTasks addDays_UTC 1706140800000 [far_back])"
    using e g by simp
  show ?thesis using 1 2 3 4 5 6 g by simp
qed

section \<open>Validation of the interval\<close>







section \<open>The store a route leaves behind\<close>

lemma fst_put_devices_id:
  "fst (put_devices_id usr j body s) = s
   \<or> fst (put_devices_id usr j body s) = fst (update_devices (deviceData body) j s)"
  by (auto simp: put_devices_id_def updateDevice_def fst_case_sum dest: getDevice_id
           split: option.splits)

lemma fst_delete_devices_id:
  "fst (delete_devices_id fails usr j s) = s
   \<or> fst (delete_devices_id fails usr j s) = fst (deleteDevice fails j s)"
  by (auto simp: delete_devices_id_def fst_case_sum dest: getDevice_id split: option.splits)

lemma fst_post_devices:
  "fst (post_devices usr body s) = s
   \<or> (\<exists>u. usr = Some u
         \<and> fst (post_devices usr body s)
           = fst (insert_devices (deviceData (body\<lparr>pd_userId := Some (u_id u)\<rparr>)) s))"
  by (auto simp: post_devices_def createDevice_def fst_case_sum split: option.splits)

lemma fst_post_devices_id_consumables:
  "fst (post_devices_id_consumables usr j body s) = s
   \<or> fst (post_devices_id_consumables usr j body s)
       = fst (insert_consumables (body\<lparr>pc_deviceId := Some j\<rparr>) s)"
  by (auto simp: post_devices_id_consumables_def createConsumable_def fst_case_sum
           dest: getDevice_id split: option.splits)

lemma fst_put_consumables_id:
  "fst (put_consumables_id fails usr j body s) = s
   \<or> fst (put_consumables_id fails usr j body s) = fst (update_consumables body j s)"
  by (auto simp: put_consumables_id_def updateConsumable_def fst_case_sum
           split: option.splits)

lemma fst_delete_consumables_id:
  "fst (delete_consumables_id fails usr j s) = s
   \<or> fst (delete_consumables_id fails usr j s)
       = s\<lparr> consumables := filter (\<lambda>c. c_id c \<noteq> j) (consumables s) \<rparr>"
  by (auto simp: delete_consumables_id_def deleteConsumable_def split: option.splits)

lemma fst_post_devices_id_tasks:
  "fst (post_devices_id_tasks usr j body s) = s
   \<or> fst (post_devices_id_tasks usr j body s)
       = fst (insert_maintenanceTasks
               (body\<lparr> pt_deviceId := Some j, pt_lastCompleted := Some None,
                      pt_isCompleted := Some (Some False) \<rparr>) s)"
  by (auto simp: post_devices_id_tasks_def createTask_def fst_case_sum
           dest: getDevice_id split: option.splits)

lemma fst_put_tasks_id:
  "fst (put_tasks_id usr j body s) = s
   \<or> fst (put_tasks_id usr j body s) = fst (update_maintenanceTasks body j s)"
  by (auto simp: put_tasks_id_def updateTask_def fst_case_sum
           dest: getTask_id split: option.splits)

lemma fst_post_tasks_id_complete:
  "fst (post_tasks_id_complete now usr j s) = s
   \<or> (\<exists>u. usr = Some u
         \<and> fst (post_tasks_id_complete now usr j s)
           = fst (update_maintenanceTasks (completion now (u_id u) (u_username u)) j s))"
  by (auto simp: post_tasks_id_complete_def completeTask_def fst_case_sum
           dest: getTask_id split: option.splits)

lemma fst_delete_tasks_id:
  "fst (delete_tasks_id usr j s) = s \<or> fst (delete_tasks_id usr j s) = deleteTask j s"
  by (auto simp: delete_tasks_id_def dest: getTask_id split: option.splits)

lemma tasks_insert_devices [simp]:
  "maintenanceTasks (fst (insert_devices v s)) = maintenanceTasks s"
  by (simp add: insert_devices_def Let_def split: option.splits)

lemma tasks_update_devices [simp]:
  "maintenanceTasks (fst (update_devices v i s)) = maintenanceTasks s"
  by (simp add: update_devices_def split: option.splits)

lemma tasks_insert_consumables [simp]:
  "maintenanceTasks (fst (insert_consumables v s)) = maintenanceTasks s"
  by (simp add: insert_consumables_def Let_def split: option.splits)

lemma tasks_update_consumables [simp]:
  "maintenanceTasks (fst (update_consumables v i s)) = maintenanceTasks s"
  by (simp add: update_consumables_def split: option.splits)

lemma devices_insert_consumables [simp]:
  "devices (fst (insert_consumables v s)) = devices s"
  by (simp add: insert_consumables_def Let_def split: option.splits)

lemma devices_update_consumables [simp]:
  "devices (fst (update_consumables v j s)) = devices s"
  by (simp add: update_consumables_def split: option.splits)

lemma devices_insert_maintenanceTasks [simp]:
  "devices (fst (insert_maintenanceTasks v s)) = devices s"
  by (simp add: insert_maintenanceTasks_def Let_def split: option.splits)

lemma devices_update_maintenanceTasks [simp]:
  "devices (fst (update_maintenanceTasks v j s)) = devices s"
  by (simp add: update_maintenanceTasks_def split: option.splits)

lemma devices_deleteTask [simp]: "devices (deleteTask j s) = devices s"
  by (simp add: deleteTask_def)

text \<open>The definitions that evaluate a sequence of requests on a concrete store.\<close>

lemmas param_defs =
  device_params_def task_params_def toISOString_def check_text_def check_int_def
  check_timestamp_def timestamp_def timestamp_ok_def text_ok_def int4_def orNull_def
  device_body_empty_def task_body_empty_def

lemmas route_defs =
  post_devices_def put_devices_id_def post_devices_id_tasks_def put_tasks_id_def
  post_tasks_id_complete_def createDevice_def createTask_def updateTask_def completeTask_def
  insert_devices_def insert_maintenanceTasks_def update_maintenanceTasks_def
  getDevice_def getTask_def deviceData_def dateOrNull_def completedBy_fk_def
  set_task_def assign_def completion_def Let_def param_defs

section \<open>The owner of a device\<close>

text \<open>
  Claim C2, as stated, fails: \<open>PUT /api/devices/:id\<close> hands the body to
  \<open>updateDevice\<close>, which writes every column the body carries. Alice, the owner of the
  furnace, sends \<open>userId = 2\<close>; afterwards the furnace belongs to user 2.
\<close>

theorem reassigned_owner_counterexample:
  "owner home_db 1 = Some 1
   \<and> pd_userId give_away = Some 2
   \<and> owner (fst (put_devices_id (Some alice) 1 give_away home_db)) 1 = Some 2"
proof -
  have g: "getDevice 1 home_db = Some furnace" by (rule home_getDevice)
  have o: "d_userId furnace = 1" "d_id furnace = 1" by (simp_all add: furnace_def)
  have a: "u_id alice = 1" by (simp add: alice_def)
  have p: "pd_userId give_away = Some 2" by (simp add: give_away_def)
  have q: "device_params (deviceData give_away) = None"
    by (simp add: device_params_def deviceData_def give_away_def no_device_def
        toISOString_def dateOrNull_def check_text_def check_int_def check_timestamp_def
        timestamp_def orNull_def int4_def)
  have r: "fst (put_devices_id (Some alice) 1 give_away home_db)
           = fst (update_devices (deviceData give_away) 1 home_db)"
    using g o a by (simp add: put_devices_id_def updateDevice_def fst_case_sum)
  have n: "d_userId (set_device (deviceData give_away) furnace) = 2"
    by (simp add: set_device_def deviceData_def p assign_def)
  have "getDevice 1 (fst (update_devices (deviceData give_away) 1 home_db))
        = Some (set_device (deviceData give_away) furnace)"
    using g o by (simp add: update_devices_ok [OF _ q] getDevice_def getDevice_map_set)
  then show ?thesis
    using r g o n p by (simp add: owner_def)
qed

lemma owner_unchanged: "devices s' = devices s \<Longrightarrow> owner s' i = owner s i"
  by (simp add: owner_def getDevice_def)

lemma getDevice_insert_devices:
  assumes "i < devices_seq s"
  shows "getDevice i (fst (insert_devices v s)) = getDevice i s"
  using insert_devices_cases [of v s] assms
  by (elim disjE exE conjE)
     (simp_all add: getDevice_def first_filter_append split: option.splits)

lemma owner_insert_devices:
  assumes "i < devices_seq s"
  shows "owner (fst (insert_devices v s)) i = owner s i"
  using assms by (simp add: owner_def getDevice_insert_devices)

lemma seq_insert_devices: "devices_seq s \<le> devices_seq (fst (insert_devices v s))"
  by (simp add: insert_devices_def Let_def split: option.splits)

lemma userId_set_device:
  "pd_userId v = None \<Longrightarrow> d_userId (set_device v d) = d_userId d"
  by (simp add: set_device_def assign_def)

lemma owner_update_devices:
  assumes "pd_userId v = None"
  shows "owner (fst (update_devices v j s)) i = owner s i"
proof -
  from update_devices_cases [of v j s]
  consider e where "update_devices v j s = (s, Inl e)"
    | "fst (update_devices v j s)
       = s\<lparr> devices := map (\<lambda>d. if d_id d = j then set_device v d else d) (devices s) \<rparr>"
    by (elim disjE exE conjE) simp_all
  then show ?thesis
  proof cases
    case 1
    then show ?thesis by simp
  next
    case 2
    have "getDevice i (fst (update_devices v j s))
          = map_option (\<lambda>d. if d_id d = j then set_device v d else d) (getDevice i s)"
      unfolding 2 by (simp add: getDevice_def getDevice_map_set)
    then show ?thesis
      using assms by (cases "getDevice i s") (simp_all add: owner_def userId_set_device)
  qed
qed

lemma owner_deleteDevice:
  "owner (fst (deleteDevice fails j s)) i = None
   \<or> owner (fst (deleteDevice fails j s)) i = owner s i"
proof (cases "i = j")
  case True
  then show ?thesis
    by (auto simp: owner_def getDevice_def deleteDevice_def Let_def first_filter_None)
next
  case False
  then have "filter (\<lambda>d. d_id d = i) (filter (\<lambda>d. d_id d \<noteq> j) (devices s))
             = filter (\<lambda>d. d_id d = i) (devices s)"
    by (auto intro: filter_cong)
  then show ?thesis
    by (simp add: owner_def getDevice_def deleteDevice_def Let_def)
qed

lemma seq_deleteDevice: "devices_seq (fst (deleteDevice fails j s)) = devices_seq s"
  by (simp add: deleteDevice_def Let_def)

lemma devices_post_devices_id_consumables:
  "devices (fst (post_devices_id_consumables usr j body s)) = devices s"
  using fst_post_devices_id_consumables [of usr j body s] by (elim disjE) simp_all

lemma devices_put_consumables_id:
  "devices (fst (put_consumables_id fails usr j body s)) = devices s"
  using fst_put_consumables_id [of fails usr j body s] by (elim disjE) simp_all

lemma devices_delete_consumables_id:
  "devices (fst (delete_consumables_id fails usr j s)) = devices s"
  using fst_delete_consumables_id [of fails usr j s] by (elim disjE) simp_all

lemma devices_post_devices_id_tasks:
  "devices (fst (post_devices_id_tasks usr j body s)) = devices s"
  using fst_post_devices_id_tasks [of usr j body s] by (elim disjE) simp_all

lemma devices_put_tasks_id:
  "devices (fst (put_tasks_id usr j body s)) = devices s"
  using fst_put_tasks_id [of usr j body s] by (elim disjE) simp_all

lemma devices_post_tasks_id_complete:
  "devices (fst (post_tasks_id_complete now usr j s)) = devices s"
  using fst_post_tasks_id_complete [of now usr j s] by (elim disjE exE conjE) simp_all

lemma devices_delete_tasks_id:
  "devices (fst (delete_tasks_id usr j s)) = devices s"
  using fst_delete_tasks_id [of usr j s] by (elim disjE) simp_all

lemma owner_post_devices:
  assumes "i < devices_seq s"
  shows "owner (fst (post_devices usr body s)) i = owner s i"
  using fst_post_devices [of usr body s] assms
  by (elim disjE exE conjE) (simp_all add: owner_insert_devices)

lemma owner_put_devices_id:
  assumes "pd_userId body = None"
  shows "owner (fst (put_devices_id usr j body s)) i = owner s i"
proof -
  have "pd_userId (deviceData body) = None"
    using assms by (simp add: deviceData_def)
  then show ?thesis
    using fst_put_devices_id [of usr j body s]
    by (elim disjE) (simp_all add: owner_update_devices)
qed

lemma owner_delete_devices_id:
  "owner (fst (delete_devices_id fails usr j s)) i = None
   \<or> owner (fst (delete_devices_id fails usr j s)) i = owner s i"
  using fst_delete_devices_id [of fails usr j s] owner_deleteDevice [of fails j s i]
  by (elim disjE) simp_all

lemma api_owner_step:
  assumes "no_userId c" "i < devices_seq s"
  shows "owner (fst (api usr c s)) i = None \<or> owner (fst (api usr c s)) i = owner s i"
proof (cases c)
  case (PostDevices body)
  show ?thesis
    unfolding PostDevices api.simps using owner_post_devices [OF assms(2)] by blast
next
  case (PutDevice j body)
  have "pd_userId body = None"
    using assms(1) unfolding PutDevice by simp
  then show ?thesis
    unfolding PutDevice api.simps using owner_put_devices_id by blast
next
  case (DeleteDevice fails j)
  show ?thesis
    unfolding DeleteDevice api.simps by (rule owner_delete_devices_id)
next
  case (PostConsumable j body)
  show ?thesis
    unfolding PostConsumable api.simps
    using owner_unchanged [OF devices_post_devices_id_consumables] by blast
next
  case (PutConsumable fails j body)
  show ?thesis
    unfolding PutConsumable api.simps
    using owner_unchanged [OF devices_put_consumables_id] by blast
next
  case (DeleteConsumable fails j)
  show ?thesis
    unfolding DeleteConsumable api.simps
    using owner_unchanged [OF devices_delete_consumables_id] by blast
next
  case (PostTask j body)
  show ?thesis
    unfolding PostTask api.simps
    using owner_unchanged [OF devices_post_devices_id_tasks] by blast
next
  case (PutTask j body)
  show ?thesis
    unfolding PutTask api.simps
    using owner_unchanged [OF devices_put_tasks_id] by blast
next
  case (CompleteTask now j)
  show ?thesis
    unfolding CompleteTask api.simps
    using owner_unchanged [OF devices_post_tasks_id_complete] by blast
next
  case (DeleteTask j)
  show ?thesis
    unfolding DeleteTask api.simps
    using owner_unchanged [OF devices_delete_tasks_id] by blast
qed

lemma devices_seq_insert_devices:
  "devices_seq s \<le> devices_seq (fst (insert_devices v s))"
  by (simp add: insert_devices_def Let_def split: option.splits)

lemma devices_seq_post_devices:
  "devices_seq s \<le> devices_seq (fst (post_devices usr body s))"
  using fst_post_devices [of usr body s]
  by (elim disjE exE conjE) (simp_all add: devices_seq_insert_devices)

lemma devices_seq_put_devices_id:
  "devices_seq (fst (put_devices_id usr j body s)) = devices_seq s"
  using fst_put_devices_id [of usr j body s]
  by (elim disjE) (simp_all add: update_devices_def split: option.splits)

lemma devices_seq_delete_devices_id:
  "devices_seq (fst (delete_devices_id fails usr j s)) = devices_seq s"
  using fst_delete_devices_id [of fails usr j s]
  by (elim disjE) (simp_all add: seq_deleteDevice)

lemma devices_seq_post_devices_id_consumables:
  "devices_seq (fst (post_devices_id_consumables usr j body s)) = devices_seq s"
  using fst_post_devices_id_consumables [of usr j body s]
  by (elim disjE) (simp_all add: insert_consumables_def Let_def split: option.splits)

lemma devices_seq_put_consumables_id:
  "devices_seq (fst (put_consumables_id fails usr j body s)) = devices_seq s"
  using fst_put_consumables_id [of fails usr j body s]
  by (elim disjE) (simp_all add: update_consumables_def split: option.splits)

lemma devices_seq_delete_consumables_id:
  "devices_seq (fst (delete_consumables_id fails usr j s)) = devices_seq s"
  using fst_delete_consumables_id [of fails usr j s] by (elim disjE) simp_all

lemma devices_seq_post_devices_id_tasks:
  "devices_seq (fst (post_devices_id_tasks usr j body s)) = devices_seq s"
  using fst_post_devices_id_tasks [of usr j body s]
  by (elim disjE) (simp_all add: insert_maintenanceTasks_def Let_def split: option.splits)

lemma devices_seq_put_tasks_id:
  "devices_seq (fst (put_tasks_id usr j body s)) = devices_seq s"
  using fst_put_tasks_id [of usr j body s]
  by (elim disjE) (simp_all add: update_maintenanceTasks_def split: option.splits)

lemma devices_seq_post_tasks_id_complete:
  "devices_seq (fst (post_tasks_id_complete now usr j s)) = devices_seq s"
  using fst_post_tasks_id_complete [of now usr j s]
  by (elim disjE exE conjE) (simp_all add: update_maintenanceTasks_def split: option.splits)

lemma devices_seq_delete_tasks_id:
  "devices_seq (fst (delete_tasks_id usr j s)) = devices_seq s"
  using fst_delete_tasks_id [of usr j s] by (elim disjE) (simp_all add: deleteTask_def)

lemma api_devices_seq: "devices_seq s \<le> devices_seq (fst (api usr c s))"
  by (cases c)
     (simp_all add: devices_seq_post_devices devices_seq_put_devices_id
        devices_seq_delete_devices_id devices_seq_post_devices_id_consumables
        devices_seq_put_consumables_id devices_seq_delete_consumables_id
        devices_seq_post_devices_id_tasks devices_seq_put_tasks_id
        devices_seq_post_tasks_id_complete devices_seq_delete_tasks_id)

lemma run_owner:
  assumes "list_all (\<lambda>rc. no_userId (snd rc)) cs" "i < devices_seq s"
  shows "owner (run cs s) i = None \<or> owner (run cs s) i = owner s i"
  using assms
proof (induction cs arbitrary: s)
  case Nil
  then show ?case by simp
next
  case (Cons rc cs)
  obtain usr c where rc: "rc = (usr, c)" by (cases rc)
  let ?s1 = "fst (api usr c s)"
  have c: "no_userId c" and rest: "list_all (\<lambda>rc. no_userId (snd rc)) cs"
    using Cons.prems(1) by (simp_all add: rc)
  have "devices_seq s \<le> devices_seq ?s1" by (rule api_devices_seq)
  then have lt: "i < devices_seq ?s1" using Cons.prems(2) by simp
  have step: "owner ?s1 i = None \<or> owner ?s1 i = owner s i"
    using c Cons.prems(2) by (rule api_owner_step)
  have ih: "owner (run cs ?s1) i = None \<or> owner (run cs ?s1) i = owner ?s1 i"
    using rest lt by (rule Cons.IH)
  have r: "run (rc # cs) s = run cs ?s1" by (simp add: rc)
  show ?case unfolding r using step ih by metis
qed

text \<open>
  Claim C2, amended. Over every sequence of requests in which no device update carries
  \<open>userId\<close> in its body, a device keeps its owner: if the device with key \<open>i\<close> is in
  the store before and after, its \<open>userId\<close> is the same; in particular a device update
  whose body does not carry \<open>userId\<close> cannot change it. (The key is one the store has
  handed out, so no later insert can take it.)
\<close>

theorem owner_never_reassigned:
  assumes "list_all (\<lambda>rc. no_userId (snd rc)) cs"
      and "i < devices_seq s"
      and "getDevice i s = Some d"
      and "getDevice i (run cs s) = Some d'"
  shows "d_userId d' = d_userId d"
  using run_owner [OF assms(1,2)] assms(3,4) by (simp add: owner_def)

text \<open>Alice renames her furnace and completes its task.\<close>

theorem owner_never_reassigned_witness:
  "list_all (\<lambda>rc. no_userId (snd rc)) renaming
   \<and> (1::nat) < devices_seq home_db
   \<and> getDevice 1 home_db = Some furnace
   \<and> getDevice 1 (run renaming home_db) = Some old_furnace
   \<and> d_userId old_furnace = d_userId furnace"
proof -
  let ?s1 = "fst (put_devices_id (Some alice) 1 rename_only home_db)"
  have a: "list_all (\<lambda>rc. no_userId (snd rc)) renaming"
    by (simp add: renaming_def rename_only_def no_device_def)
  have b: "(1::nat) < devices_seq home_db"
    by (simp add: home_db_def)
  have g: "getDevice 1 home_db = Some furnace" by (rule home_getDevice)
  have o: "d_userId furnace = u_id alice" "d_id furnace = 1"
    by (simp_all add: furnace_def alice_def)
  have s1: "?s1 = fst (update_devices (deviceData rename_only) 1 home_db)"
    using g o by (simp add: put_devices_id_def updateDevice_def fst_case_sum)
  have q: "device_params (deviceData rename_only) = None"
    by (simp add: device_params_def deviceData_def rename_only_def no_device_def
        toISOString_def dateOrNull_def check_text_def check_int_def check_timestamp_def
        timestamp_def orNull_def text_ok_def)
  have n: "set_device (deviceData rename_only) furnace = old_furnace"
    by (simp add: set_device_def deviceData_def rename_only_def no_device_def assign_def
        dateOrNull_def timestamp_def old_furnace_def furnace_def)
  have g1: "getDevice 1 ?s1 = Some old_furnace"
    unfolding s1 using g o n
    by (simp add: update_devices_ok [OF _ q] getDevice_def getDevice_map_set)
  have r: "run renaming home_db = fst (post_tasks_id_complete 5 (Some alice) 1 ?s1)"
    by (simp add: renaming_def)
  have g2: "getDevice 1 (run renaming home_db) = Some old_furnace"
    unfolding r using getDevice_unchanged [OF devices_post_tasks_id_complete] g1 by simp
  show ?thesis
    using owner_never_reassigned [OF a b g g2] a b g g2 by simp
qed

section \<open>The completion fields of a task\<close>














section \<open>Completed iff a completion date is recorded\<close>

lemma completed_iff_set_task:
  assumes "pt_lastCompleted v = None" "pt_isCompleted v = None" "completed_iff t"
  shows "completed_iff (set_task v t)"
  using assms by (simp add: completed_iff_def set_task_def assign_def)

lemma completed_iff_completion: "completed_iff (set_task (completion now uid name) t)"
  by (simp add: completed_iff_def set_task_def assign_def completion_def timestamp_def)

lemma completed_iff_update:
  assumes "list_all completed_iff (maintenanceTasks s)"
    and "\<And>t. completed_iff t \<Longrightarrow> completed_iff (set_task v t)"
  shows "list_all completed_iff (maintenanceTasks (fst (update_maintenanceTasks v i s)))"
  using update_maintenanceTasks_cases [of v i s] assms
  by (elim disjE exE conjE) (auto simp: list_all_iff)

lemma completed_iff_insert:
  assumes "list_all completed_iff (maintenanceTasks s)"
    and "pt_lastCompleted v = Some None" "pt_isCompleted v = Some (Some False)"
  shows "list_all completed_iff (maintenanceTasks (fst (insert_maintenanceTasks v s)))"
  using insert_maintenanceTasks_cases [of v s] assms
  by (elim disjE exE conjE) (auto simp: completed_iff_def orNull_def timestamp_def)

lemma completed_iff_deleteDevice:
  assumes "list_all completed_iff (maintenanceTasks s)"
  shows "list_all completed_iff (maintenanceTasks (fst (deleteDevice fails i s)))"
  using assms by (simp add: deleteDevice_def Let_def list_all_iff)

lemma api_completed_iff:
  assumes "no_completion_state c" "list_all completed_iff (maintenanceTasks s)"
  shows "list_all completed_iff (maintenanceTasks (fst (api usr c s)))"
proof (cases c)
  case (PostDevices body)
  have "maintenanceTasks (fst (post_devices usr body s)) = maintenanceTasks s"
    using fst_post_devices [of usr body s] by (elim disjE exE conjE) simp_all
  then show ?thesis unfolding PostDevices api.simps using assms(2) by simp
next
  case (PutDevice j body)
  have "maintenanceTasks (fst (put_devices_id usr j body s)) = maintenanceTasks s"
    using fst_put_devices_id [of usr j body s] by (elim disjE) simp_all
  then show ?thesis unfolding PutDevice api.simps using assms(2) by simp
next
  case (DeleteDevice fails j)
  show ?thesis
    unfolding DeleteDevice api.simps
    using fst_delete_devices_id [of fails usr j s] assms(2)
    by (elim disjE) (simp_all add: completed_iff_deleteDevice)
next
  case (PostConsumable j body)
  have "maintenanceTasks (fst (post_devices_id_consumables usr j body s)) = maintenanceTasks s"
    using fst_post_devices_id_consumables [of usr j body s] by (elim disjE) simp_all
  then show ?thesis unfolding PostConsumable api.simps using assms(2) by simp
next
  case (PutConsumable fails j body)
  have "maintenanceTasks (fst (put_consumables_id fails usr j body s)) = maintenanceTasks s"
    using fst_put_consumables_id [of fails usr j body s] by (elim disjE) simp_all
  then show ?thesis unfolding PutConsumable api.simps using assms(2) by simp
next
  case (DeleteConsumable fails j)
  have "maintenanceTasks (fst (delete_consumables_id fails usr j s)) = maintenanceTasks s"
    using fst_delete_consumables_id [of fails usr j s] by (elim disjE) simp_all
  then show ?thesis unfolding DeleteConsumable api.simps using assms(2) by simp
next
  case (PostTask j body)
  show ?thesis
    unfolding PostTask api.simps
    using fst_post_devices_id_tasks [of usr j body s] assms(2)
    by (elim disjE) (simp_all add: completed_iff_insert)
next
  case (PutTask j body)
  have b: "pt_lastCompleted body = None" "pt_isCompleted body = None"
    using assms(1) unfolding PutTask by simp_all
  have "list_all completed_iff (maintenanceTasks (fst (update_maintenanceTasks body j s)))"
    using assms(2) completed_iff_set_task [OF b] by (rule completed_iff_update)
  then show ?thesis
    unfolding PutTask api.simps
    using fst_put_tasks_id [of usr j body s] assms(2) by (elim disjE) simp_all
next
  case (CompleteTask now j)
  have "\<And>u. list_all completed_iff
          (maintenanceTasks (fst (update_maintenanceTasks
             (completion now (u_id u) (u_username u)) j s)))"
    using assms(2) completed_iff_completion by (rule completed_iff_update)
  then show ?thesis
    unfolding CompleteTask api.simps
    using fst_post_tasks_id_complete [of now usr j s] assms(2)
    by (elim disjE exE conjE) simp_all
next
  case (DeleteTask j)
  show ?thesis
    unfolding DeleteTask api.simps
    using fst_delete_tasks_id [of usr j s] assms(2)
    by (elim disjE) (simp_all add: deleteTask_def list_all_iff)
qed

text \<open>
  Claim C4, as stated, fails. From the empty store Alice creates a device and a task and
  then updates the task with the body \<open>{isCompleted: true}\<close>: the task is marked
  completed and has no completion date.
\<close>

theorem flag_without_date_counterexample:
  "maintenanceTasks (run flagging empty_db) = [flagged]
   \<and> t_isCompleted flagged = Some True
   \<and> t_lastCompleted flagged = None"
  by (simp add: flagging_def empty_db_def alice_def bob_def new_furnace_def no_device_def
      new_task_def no_task_def flag_only_def flagged_def route_defs)

text \<open>
  Claim C4, amended. If \<open>isCompleted\<close> is true exactly when \<open>lastCompleted\<close> is
  non-null for every task of the store, this still holds after every sequence of
  requests (creations, completions, deletions, updates) in which no task update carries
  \<open>lastCompleted\<close> or \<open>isCompleted\<close> in its body.
\<close>

theorem completed_iff_invariant:
  assumes "list_all (\<lambda>rc. no_completion_state (snd rc)) cs"
      and "list_all completed_iff (maintenanceTasks s)"
  shows "list_all completed_iff (maintenanceTasks (run cs s))"
  using assms
proof (induction cs arbitrary: s)
  case Nil
  then show ?case by simp
next
  case (Cons rc cs)
  obtain usr c where rc: "rc = (usr, c)" by (cases rc)
  have c: "no_completion_state c"
    and rest: "list_all (\<lambda>rc. no_completion_state (snd rc)) cs"
    using Cons.prems(1) by (simp_all add: rc)
  have "list_all completed_iff (maintenanceTasks (fst (api usr c s)))"
    using c Cons.prems(2) by (rule api_completed_iff)
  with rest have "list_all completed_iff (maintenanceTasks (run cs (fst (api usr c s))))"
    by (rule Cons.IH)
  then show ?case by (simp add: rc)
qed

text \<open>Alice renames her task and then completes it at instant 1000.\<close>

theorem completed_iff_invariant_witness:
  "list_all (\<lambda>rc. no_completion_state (snd rc)) retitle_complete
   \<and> list_all completed_iff (maintenanceTasks home_db)
   \<and> list_all completed_iff (maintenanceTasks (run retitle_complete home_db))
   \<and> map completion_of (maintenanceTasks (run retitle_complete home_db))
       = [(1, Some 1000, Some True, Some 1, Some ''alice''),
          (2, Some 0, Some True, Some 2, Some ''bob'')]"
proof -
  have a: "list_all (\<lambda>rc. no_completion_state (snd rc)) retitle_complete"
    by (simp add: retitle_complete_def retitle_def no_task_def)
  have b: "list_all completed_iff (maintenanceTasks home_db)"
    by (simp add: home_db_def completed_iff_def change_filter_def descale_def)
  have c: "map completion_of (maintenanceTasks (run retitle_complete home_db))
       = [(1, Some 1000, Some True, Some 1, Some ''alice''),
          (2, Some 0, Some True, Some 2, Some ''bob'')]"
    by (simp add: retitle_complete_def home_db_def alice_def bob_def furnace_def boiler_def
        change_filter_def descale_def retitle_def no_task_def completion_of_def route_defs)
  show ?thesis using completed_iff_invariant [OF a b] a b c by simp
qed

end
